theory Spec2Isabelle
  imports Complex_Main
begin

section \<open>Pairwise normaliser\<close>

text \<open>
  The series points of \<^verbatim>\<open>utils/normalize.ts\<close>. A JavaScript number is modelled as a
  real: the functions below only compare, take maxima and divide, and for finite values
  the rounded quotient of \<open>0 \<le> a \<le> b\<close> stays in \<open>[0, 1]\<close>, so the bounds proved over the
  reals are the bounds of the rounded results. NaN and the infinities have no counterpart
  here.
\<close>

record XY =
  date :: string
  count :: real

definition safeDiv :: "real \<Rightarrow> real \<Rightarrow> real" where
  "safeDiv a b = (if b = 0 then 0 else a / b)"

text \<open>\<^verbatim>\<open>Math.max(0, ...series.map(p => p.count))\<close>\<close>

definition maxCount :: "XY list \<Rightarrow> real" where
  "maxCount series = fold max (map count series) 0"

definition rescale :: "real \<Rightarrow> XY \<Rightarrow> XY" where
  "rescale m p = p\<lparr>count := safeDiv (count p) m\<rparr>"

text \<open>The shared utility, \<^verbatim>\<open>normalizePair\<close> of \<^verbatim>\<open>utils/normalize.ts\<close>.\<close>

definition normalizePair :: "XY list \<Rightarrow> XY list \<Rightarrow> XY list \<times> XY list" where
  "normalizePair left right =
     (let maxL = maxCount left;
          maxR = maxCount right;
          maxBoth = max (max maxL maxR) 0
      in (map (rescale maxBoth) left, map (rescale maxBoth) right))"

text \<open>
  The copy local to the binary voting page: \<^verbatim>\<open>Math.max(maxL, maxR, 0) || 1\<close> replaces a
  zero maximum by one.
\<close>

definition normalizePair_local :: "XY list \<Rightarrow> XY list \<Rightarrow> XY list \<times> XY list" where
  "normalizePair_local left right =
     (let maxL = maxCount left;
          maxR = maxCount right;
          m = max (max maxL maxR) 0;
          maxBoth = (if m = 0 then 1 else m)
      in (map (rescale maxBoth) left, map (rescale maxBoth) right))"

definition normalizePerSeries :: "XY list \<Rightarrow> XY list" where
  "normalizePerSeries series = map (rescale (maxCount series)) series"

section \<open>Leaderboard query controller (frequency dashboard page)\<close>

datatype SortOrder = Asc | Desc

record 'row LeaderboardResponse =
  res_data :: "'row list"
  res_total_pages :: int

text \<open>The outcome of \<^verbatim>\<open>await api.get("/v1/leaderboard", ...)\<close>.\<close>

datatype 'row reply = Resolved "'row LeaderboardResponse" | Rejected

text \<open>
  The state of \<^verbatim>\<open>FrequencyDashboardPage\<close> that the query controller touches.
  \<open>lastReqId\<close> is the \<^verbatim>\<open>useRef(0)\<close> counter; it only ever grows by one per request, so
  it is a natural number (a double counts exactly far beyond any number of requests a
  page can issue). \<open>inflight\<close> holds the suspended calls of \<^verbatim>\<open>fetchLeaderboard\<close>: it
  maps the \<^verbatim>\<open>reqId\<close> a call captured to the \<^verbatim>\<open>pageArg\<close> it captured.
\<close>

record 'row Dashboard =
  ngrams :: "'row list"
  page :: int
  pendingPage :: int
  totalPages :: int
  sortBy :: string
  sortOrder :: SortOrder
  isLoading :: bool
  lastReqId :: nat
  inflight :: "nat \<rightharpoonup> int"

definition initialDashboard :: "'row Dashboard" where
  "initialDashboard =
     \<lparr>ngrams = [], page = 1, pendingPage = 1, totalPages = 1, sortBy = ''text'',
      sortOrder = Asc, isLoading = False, lastReqId = 0, inflight = Map.empty\<rparr>"

text \<open>\<^verbatim>\<open>fetchLeaderboard\<close> up to its \<^verbatim>\<open>await\<close>.\<close>

definition fetchLeaderboard_issue :: "int \<Rightarrow> 'row Dashboard \<Rightarrow> nat \<times> 'row Dashboard" where
  "fetchLeaderboard_issue pageArg d =
     (let reqId = lastReqId d + 1
      in (reqId, d\<lparr>lastReqId := reqId, isLoading := True, pendingPage := pageArg,
                   inflight := (inflight d)(reqId \<mapsto> pageArg)\<rparr>))"

text \<open>
  \<^verbatim>\<open>fetchLeaderboard\<close> from its \<^verbatim>\<open>await\<close> on, for the call that captured \<open>reqId\<close> and
  \<open>pageArg\<close>: the stale check, the three setters, and the \<^verbatim>\<open>finally\<close> block.
\<close>

definition fetchLeaderboard_settle ::
    "nat \<Rightarrow> int \<Rightarrow> 'row reply \<Rightarrow> 'row Dashboard \<Rightarrow> 'row Dashboard" where
  "fetchLeaderboard_settle reqId pageArg r d =
     (case r of
        Resolved res \<Rightarrow>
          if reqId \<noteq> lastReqId d then d
          else d\<lparr>ngrams := res_data res, totalPages := res_total_pages res,
                 page := pageArg, isLoading := False\<rparr>
      | Rejected \<Rightarrow> if reqId = lastReqId d then d\<lparr>isLoading := False\<rparr> else d)"

datatype 'row dash_event = Issue int | Settle nat "'row reply"

text \<open>A reply can only wake a call that is suspended; the call then leaves \<open>inflight\<close>.\<close>

definition dash_step :: "'row dash_event \<Rightarrow> 'row Dashboard \<Rightarrow> 'row Dashboard" where
  "dash_step e d =
     (case e of
        Issue pageArg \<Rightarrow> snd (fetchLeaderboard_issue pageArg d)
      | Settle reqId r \<Rightarrow>
          (case inflight d reqId of
             None \<Rightarrow> d
           | Some pageArg \<Rightarrow>
               (fetchLeaderboard_settle reqId pageArg r d)
                 \<lparr>inflight := (inflight d)(reqId := None)\<rparr>))"

definition dash_run :: "'row dash_event list \<Rightarrow> 'row Dashboard \<Rightarrow> 'row Dashboard" where
  "dash_run es d = fold dash_step es d"

text \<open>A reply to a request other than \<open>b\<close>.\<close>

fun settles_other :: "nat \<Rightarrow> 'row dash_event \<Rightarrow> bool" where
  "settles_other b (Issue _) = False"
| "settles_other b (Settle reqId _) = (reqId \<noteq> b)"

text \<open>
  What a reply to another request leaves alone: the rows, the committed page, the page
  count, the counter and the suspended call of request \<open>b\<close>.
\<close>

definition same_view :: "'row Dashboard \<Rightarrow> 'row Dashboard \<Rightarrow> nat \<Rightarrow> bool" where
  "same_view d d' b =
     (ngrams d' = ngrams d \<and> page d' = page d \<and> totalPages d' = totalPages d \<and>
      lastReqId d' = lastReqId d \<and> inflight d' b = inflight d b)"

text \<open>\<^verbatim>\<open>handleSortChange\<close> of the frequency dashboard page.\<close>

definition handleSortChange :: "string \<Rightarrow> 'row Dashboard \<Rightarrow> 'row Dashboard" where
  "handleSortChange field d =
     (if field = sortBy d
      then d\<lparr>sortOrder := (if sortOrder d = Asc then Desc else Asc)\<rparr>
      else d\<lparr>sortBy := field, sortOrder := Desc\<rparr>)"

section \<open>Burst leaderboard page\<close>

datatype BurstSort = Score | Ngram | NormalizedScore

record BurstPage =
  burst_sortBy :: BurstSort
  burst_sortOrder :: SortOrder
  burst_page :: int

text \<open>\<^verbatim>\<open>handleSortChange\<close> of \<^verbatim>\<open>BurstPage\<close>.\<close>

definition handleSortChange_burst :: "BurstSort \<Rightarrow> BurstPage \<Rightarrow> BurstPage" where
  "handleSortChange_burst field b =
     (if field = burst_sortBy b
      then b\<lparr>burst_sortOrder := (if burst_sortOrder b = Asc then Desc else Asc)\<rparr>
      else b\<lparr>burst_sortBy := field,
             burst_sortOrder := (if field = Ngram then Asc else Desc)\<rparr>)
       \<lparr>burst_page := 1\<rparr>"

section \<open>JavaScript text\<close>

text \<open>
  A JavaScript text is a sequence of UTF-16 code units, here natural numbers; its
  \<^verbatim>\<open>length\<close> is the number of code units. \<open>utf16\<close> gives the code units of an ASCII
  text.
\<close>

type_synonym js_text = "nat list"

definition utf16 :: "string \<Rightarrow> js_text" where
  "utf16 t = map of_char t"

text \<open>
  The white space that \<^verbatim>\<open>parseInt\<close> skips and \<^verbatim>\<open>trim\<close> removes: tab, line feed,
  vertical tab, form feed, carriage return, the space separators (U+0020, U+00A0, U+1680,
  U+2000 to U+200A, U+202F, U+205F, U+3000), the line and paragraph separators (U+2028,
  U+2029) and U+FEFF.
\<close>

definition is_space :: "nat \<Rightarrow> bool" where
  "is_space c =
     (c \<in> {9, 10, 11, 12, 13, 32, 160, 5760, 8232, 8233, 8239, 8287, 12288, 65279}
      \<or> (8192 \<le> c \<and> c \<le> 8202))"

text \<open>\<^verbatim>\<open>String.prototype.trim\<close>\<close>

definition trim :: "js_text \<Rightarrow> js_text" where
  "trim t = rev (dropWhile is_space (rev (dropWhile is_space t)))"

section \<open>Taxonomy filter panel\<close>

text \<open>
  The names of domains, fields and subfields are only compared with each other, and are
  kept as \<open>string\<close>s. The text of the search box and of an n-gram option is measured and
  trimmed, and is a sequence of code units.
\<close>

record NgramOption =
  opt_id :: int
  opt_text :: js_text

record FilterState =
  domainId :: "int option"
  fieldId :: "int option"
  subfieldId :: "int option"
  nWords :: "int option"
  ngram :: "NgramOption option"
  domainName :: "string option"
  fieldName :: "string option"
  subfieldName :: "string option"

text \<open>The reply of \<^verbatim>\<open>/v1/filters/hierarchy\<close>: domains, their fields, their subfields.\<close>

record SubfieldNode =
  sub_id :: int
  sub_name :: string

record FieldNode =
  fld_id :: int
  fld_name :: string
  fld_subfields :: "SubfieldNode list"

record DomainNode =
  dom_id :: int
  dom_name :: string
  dom_fields :: "FieldNode list"

text \<open>The flattened rows the panel keeps in \<^verbatim>\<open>allFields\<close> and \<^verbatim>\<open>allSubfields\<close>.\<close>

record FieldRow =
  f_id :: int
  f_name :: string
  f_subfields :: "SubfieldNode list"
  f_domain_id :: int
  f_domain_name :: string

record SubfieldRow =
  s_id :: int
  s_name :: string
  s_field_id :: int
  s_field_name :: string
  s_domain_id :: int
  s_domain_name :: string

record AvailableField =
  af_id :: int
  af_name :: string
  af_domain_name :: string

record AmbiguousInfo =
  amb_subfieldName :: string
  availableFields :: "AvailableField list"

text \<open>
  The parameters of a request to \<^verbatim>\<open>/v1/filters/ngram-text\<close>; an absent
  \<open>ac_subfield_id\<close> is \<^verbatim>\<open>undefined\<close>, which the client leaves out of the query.
\<close>

record AutocompleteParams =
  ac_q :: js_text
  ac_subfield_id :: "int option"
  ac_limit :: nat

text \<open>
  The state of \<^verbatim>\<open>NgramFilterPanel\<close> that the taxonomy handlers, the search box,
  \<^verbatim>\<open>applyFilters\<close> and the autocomplete effect read or write, with the two props they
  test. \<open>start_date\<close> and \<open>end_date\<close> are the state variables \<^verbatim>\<open>start\<close> and
  \<^verbatim>\<open>end\<close>. \<open>debounceTimer\<close> is the pending timeout of the autocomplete effect, with
  the parameters its callback has captured, or \<open>None\<close> when no timeout is pending.
  \<open>autocompleteSent\<close> lists the autocomplete requests sent so far. The options the
  server returns, the dropdown and the loading flag are left out: no handler modelled
  here reads them.
\<close>

record Panel =
  hierarchy :: "DomainNode list"
  allFields :: "FieldRow list"
  allSubfields :: "SubfieldRow list"
  filters :: FilterState
  isSubfieldAmbiguous :: bool
  ambiguousSubfieldInfo :: "AmbiguousInfo option"
  start_date :: "string option"
  end_date :: "string option"
  showTimePicker :: bool
  hasOnTimeChange :: bool
  searchText :: js_text
  debounceTimer :: "AutocompleteParams option"
  autocompleteSent :: "AutocompleteParams list"

definition emptyFilters :: FilterState where
  "emptyFilters =
     \<lparr>domainId = None, fieldId = None, subfieldId = None, nWords = None, ngram = None,
      domainName = None, fieldName = None, subfieldName = None\<rparr>"


text \<open>The two \<^verbatim>\<open>flatMap\<close>s of the hierarchy effect.\<close>

definition flattenFields :: "DomainNode list \<Rightarrow> FieldRow list" where
  "flattenFields ds =
     concat (map (\<lambda>d. map (\<lambda>f. \<lparr>f_id = fld_id f, f_name = fld_name f,
                                  f_subfields = fld_subfields f, f_domain_id = dom_id d,
                                  f_domain_name = dom_name d\<rparr>) (dom_fields d)) ds)"

definition flattenSubfields :: "FieldRow list \<Rightarrow> SubfieldRow list" where
  "flattenSubfields fs =
     concat (map (\<lambda>f. map (\<lambda>s. \<lparr>s_id = sub_id s, s_name = sub_name s, s_field_id = f_id f,
                                  s_field_name = f_name f, s_domain_id = f_domain_id f,
                                  s_domain_name = f_domain_name f\<rparr>) (f_subfields f)) fs)"

definition hierarchyLoaded :: "DomainNode list \<Rightarrow> Panel \<Rightarrow> Panel" where
  "hierarchyLoaded ds p =
     (let fields = flattenFields ds
      in p\<lparr>hierarchy := ds, allFields := fields, allSubfields := flattenSubfields fields\<rparr>)"

text \<open>\<^verbatim>\<open>Array.prototype.findIndex\<close>: the first index that satisfies the test, or \<open>-1\<close>.\<close>

fun findIndex :: "('a \<Rightarrow> bool) \<Rightarrow> 'a list \<Rightarrow> int" where
  "findIndex P [] = -1"
| "findIndex P (x # xs) =
     (if P x then 0 else (let i = findIndex P xs in if i < 0 then -1 else i + 1))"

text \<open>
  \<^verbatim>\<open>.filter((field, idx, self) => idx === self.findIndex((f) => f.id === field.id))\<close>
\<close>

definition firstById :: "AvailableField list \<Rightarrow> AvailableField list" where
  "firstById self =
     map fst (filter (\<lambda>(field, idx). int idx = findIndex (\<lambda>f. af_id f = af_id field) self)
                     (zip self [0..<length self]))"

text \<open>An id read as a condition: \<^verbatim>\<open>null\<close> and \<open>0\<close> are falsy.\<close>

definition truthy :: "int option \<Rightarrow> bool" where
  "truthy v = (case v of None \<Rightarrow> False | Some n \<Rightarrow> n \<noteq> 0)"

definition resetFilters :: "Panel \<Rightarrow> Panel" where
  "resetFilters p =
     (let q = p\<lparr>filters := emptyFilters, searchText := [], isSubfieldAmbiguous := False,
                ambiguousSubfieldInfo := None\<rparr>
      in if showTimePicker p then q\<lparr>start_date := None, end_date := None\<rparr> else q)"

text \<open>What \<^verbatim>\<open>applyFilters\<close> hands to the page: the calls of its two callbacks, in order.\<close>

datatype callback = FilterChange FilterState | TimeChange "string option" "string option"

definition applyFilters :: "Panel \<Rightarrow> callback list" where
  "applyFilters p =
     (if isSubfieldAmbiguous p then []
      else FilterChange (filters p) #
           (if showTimePicker p \<and> hasOnTimeChange p
            then [TimeChange (start_date p) (end_date p)] else []))"

text \<open>
  The three \<^verbatim>\<open>onChange\<close> handlers. The argument is \<^verbatim>\<open>val\<close>: \<^verbatim>\<open>null\<close> for the empty
  option, else the id of the chosen option.
\<close>

definition domain_onChange :: "int option \<Rightarrow> Panel \<Rightarrow> Panel" where
  "domain_onChange val p =
     (let selected = (case val of None \<Rightarrow> None
                      | Some v \<Rightarrow> find (\<lambda>d. dom_id d = v) (hierarchy p))
      in p\<lparr>filters :=
             \<lparr>domainId = val, fieldId = None, subfieldId = None,
              nWords = nWords (filters p), ngram = ngram (filters p),
              domainName = map_option dom_name selected,
              fieldName = None, subfieldName = None\<rparr>,
           isSubfieldAmbiguous := False, ambiguousSubfieldInfo := None\<rparr>)"

definition field_onChange :: "int option \<Rightarrow> Panel \<Rightarrow> Panel" where
  "field_onChange val p =
     (let selected = (case val of None \<Rightarrow> None
                      | Some v \<Rightarrow> find (\<lambda>f. f_id f = v) (allFields p));
          prev = filters p
      in case (isSubfieldAmbiguous p, ambiguousSubfieldInfo p, selected) of
           (True, Some info, Some sel) \<Rightarrow>
             (let correctSubfield =
                    find (\<lambda>s. s_field_id s = f_id sel \<and> s_name s = amb_subfieldName info)
                         (allSubfields p)
              in p\<lparr>filters :=
                     prev\<lparr>fieldId := val,
                          fieldName := Some (f_name sel),
                          domainId := Some (f_domain_id sel),
                          domainName := Some (f_domain_name sel),
                          subfieldId := (case correctSubfield of
                                           Some c \<Rightarrow> Some (s_id c)
                                         | None \<Rightarrow> subfieldId prev),
                          subfieldName := (case correctSubfield of
                                             Some c \<Rightarrow> Some (s_name c)
                                           | None \<Rightarrow> subfieldName prev)\<rparr>,
                   isSubfieldAmbiguous := False, ambiguousSubfieldInfo := None\<rparr>)
         | _ \<Rightarrow>
             p\<lparr>filters :=
                 prev\<lparr>fieldId := val,
                      fieldName := map_option f_name selected,
                      domainId := (case selected of Some sel \<Rightarrow> Some (f_domain_id sel)
                                   | None \<Rightarrow> domainId prev),
                      domainName := (case selected of Some sel \<Rightarrow> Some (f_domain_name sel)
                                     | None \<Rightarrow> domainName prev),
                      subfieldId := None,
                      subfieldName := None\<rparr>,
               isSubfieldAmbiguous := False, ambiguousSubfieldInfo := None\<rparr>)"

definition sameNameSubfields :: "SubfieldRow \<Rightarrow> Panel \<Rightarrow> SubfieldRow list" where
  "sameNameSubfields sel p = filter (\<lambda>s. s_name s = s_name sel) (allSubfields p)"

definition fieldsWithThisSubfield :: "SubfieldRow \<Rightarrow> Panel \<Rightarrow> AvailableField list" where
  "fieldsWithThisSubfield sel p =
     firstById (map (\<lambda>s. \<lparr>af_id = s_field_id s, af_name = s_field_name s,
                           af_domain_name = s_domain_name s\<rparr>) (sameNameSubfields sel p))"

definition subfield_onChange :: "int option \<Rightarrow> Panel \<Rightarrow> Panel" where
  "subfield_onChange val p =
     (let selected = (case val of None \<Rightarrow> None
                      | Some v \<Rightarrow> find (\<lambda>s. s_id s = v) (allSubfields p));
          prev = filters p;
          ambiguous = (case selected of None \<Rightarrow> False
                       | Some sel \<Rightarrow> length (sameNameSubfields sel p) > 1
                                     \<and> \<not> truthy (fieldId prev))
      in case selected of
           Some sel \<Rightarrow>
             if ambiguous
             then p\<lparr>filters :=
                      prev\<lparr>subfieldId := val,
                           subfieldName := Some (s_name sel),
                           domainId := Some (s_domain_id sel),
                           domainName := Some (s_domain_name sel)\<rparr>,
                    isSubfieldAmbiguous := True,
                    ambiguousSubfieldInfo :=
                      Some \<lparr>amb_subfieldName = s_name sel,
                            availableFields = fieldsWithThisSubfield sel p\<rparr>\<rparr>
             else p\<lparr>filters :=
                      prev\<lparr>subfieldId := val,
                           subfieldName := Some (s_name sel),
                           fieldId := Some (s_field_id sel),
                           fieldName := Some (s_field_name sel),
                           domainId := Some (s_domain_id sel),
                           domainName := Some (s_domain_name sel)\<rparr>,
                    isSubfieldAmbiguous := False, ambiguousSubfieldInfo := None\<rparr>
         | None \<Rightarrow>
             p\<lparr>filters := prev\<lparr>subfieldId := val, subfieldName := None\<rparr>,
               isSubfieldAmbiguous := False, ambiguousSubfieldInfo := None\<rparr>)"

text \<open>The options of the field select.\<close>

definition visibleFields :: "Panel \<Rightarrow> FieldRow list" where
  "visibleFields p =
     filter (\<lambda>f. case (isSubfieldAmbiguous p, ambiguousSubfieldInfo p) of
                   (True, Some info) \<Rightarrow> list_ex (\<lambda>af. af_id af = f_id f) (availableFields info)
                 | _ \<Rightarrow> (if truthy (domainId (filters p))
                         then Some (f_domain_id f) = domainId (filters p) else True))
            (allFields p)"

text \<open>The options of the subfield select.\<close>

definition visibleSubfields :: "Panel \<Rightarrow> SubfieldRow list" where
  "visibleSubfields p =
     filter (\<lambda>s. if truthy (fieldId (filters p))
                 then Some (s_field_id s) = fieldId (filters p)
                 else if truthy (domainId (filters p))
                 then Some (s_domain_id s) = domainId (filters p)
                 else True)
            (allSubfields p)"

subsection \<open>The search box\<close>

definition handleNgramSelect :: "NgramOption \<Rightarrow> Panel \<Rightarrow> Panel" where
  "handleNgramSelect option p =
     p\<lparr>searchText := opt_text option, filters := (filters p)\<lparr>ngram := Some option\<rparr>\<rparr>"

text \<open>\<^verbatim>\<open>handleKeyDown\<close> for the key Enter. (Escape only closes the dropdown.)\<close>

definition handleKeyDown_Enter :: "Panel \<Rightarrow> Panel" where
  "handleKeyDown_Enter p =
     (if trim (searchText p) \<noteq> []
      then p\<lparr>filters := (filters p)\<lparr>ngram := Some \<lparr>opt_id = 0,
                                                       opt_text = trim (searchText p)\<rparr>\<rparr>\<rparr>
      else p)"

definition handleClearSearch :: "Panel \<Rightarrow> Panel" where
  "handleClearSearch p = p\<lparr>searchText := [], filters := (filters p)\<lparr>ngram := None\<rparr>\<rparr>"

text \<open>
  The body of the autocomplete effect. It first clears the pending timeout. With fewer
  than two code units in the search box it stops there; otherwise it sets a new timeout
  whose callback sends the request with the search text and the subfield id of this
  render (\<^verbatim>\<open>filters.subfieldId || undefined\<close>).
\<close>

definition autocompleteEffect :: "Panel \<Rightarrow> Panel" where
  "autocompleteEffect p =
     (if length (searchText p) < 2 then p\<lparr>debounceTimer := None\<rparr>
      else p\<lparr>debounceTimer :=
               Some \<lparr>ac_q = searchText p,
                     ac_subfield_id = (if truthy (subfieldId (filters p))
                                       then subfieldId (filters p) else None),
                     ac_limit = 10\<rparr>\<rparr>)"

text \<open>
  After a handler has taken the panel from \<open>old\<close> to \<open>new\<close>, the render runs the
  effect if one of its dependencies \<^verbatim>\<open>[searchText, filters.subfieldId]\<close> has changed.
\<close>

definition rerender :: "Panel \<Rightarrow> Panel \<Rightarrow> Panel" where
  "rerender old new =
     (if searchText new \<noteq> searchText old
         \<or> subfieldId (filters new) \<noteq> subfieldId (filters old)
      then autocompleteEffect new else new)"

text \<open>The pending timeout fires: its callback sends the request it has captured.\<close>

definition timeoutFires :: "Panel \<Rightarrow> Panel" where
  "timeoutFires p =
     (case debounceTimer p of
        None \<Rightarrow> p
      | Some params \<Rightarrow>
          p\<lparr>autocompleteSent := autocompleteSent p @ [params], debounceTimer := None\<rparr>)"

subsection \<open>The page that holds the panel\<close>





section \<open>Events of the filter panel\<close>

text \<open>
  The user's actions on the panel, the arrival of the hierarchy, and the firing of the
  autocomplete timeout (300 ms after it was set; the model lets it fire at any later
  moment, as long as it is pending). A select can only report one of the options it
  shows, or the empty option; \<open>offered\<close> says so. Any n-gram option may be selected
  and any date typed: the options the server returns and the date bounds are not
  modelled, so the runs of the model include those of the panel. After each action the
  panel renders and runs the autocomplete effect if its dependencies changed. Pressing
  Apply changes no panel state; what it hands to the page is \<open>applyFilters\<close>.
\<close>

datatype panel_event =
    HierarchyArrives "DomainNode list"
  | Reset
  | Apply
  | DomainChange "int option"
  | FieldChange "int option"
  | SubfieldChange "int option"
  | NWordsChange "int option"
  | SearchInput js_text
  | NgramSelect NgramOption
  | EnterKey
  | ClearSearch
  | StartChange "string option"
  | EndChange "string option"
  | TimerFires

definition offered :: "int list \<Rightarrow> int option \<Rightarrow> bool" where
  "offered ids val = (case val of None \<Rightarrow> True | Some v \<Rightarrow> v \<in> set ids)"

definition panel_handler :: "panel_event \<Rightarrow> Panel \<Rightarrow> Panel" where
  "panel_handler e p =
     (case e of
        HierarchyArrives ds \<Rightarrow> hierarchyLoaded ds p
      | Reset \<Rightarrow> resetFilters p
      | Apply \<Rightarrow> p
      | DomainChange val \<Rightarrow>
          if offered (map dom_id (hierarchy p)) val then domain_onChange val p else p
      | FieldChange val \<Rightarrow>
          if offered (map f_id (visibleFields p)) val then field_onChange val p else p
      | SubfieldChange val \<Rightarrow>
          if offered (map s_id (visibleSubfields p)) val then subfield_onChange val p else p
      | NWordsChange val \<Rightarrow> p\<lparr>filters := (filters p)\<lparr>nWords := val\<rparr>\<rparr>
      | SearchInput t \<Rightarrow> p\<lparr>searchText := t\<rparr>
      | NgramSelect option \<Rightarrow> handleNgramSelect option p
      | EnterKey \<Rightarrow> handleKeyDown_Enter p
      | ClearSearch \<Rightarrow> handleClearSearch p
      | StartChange d \<Rightarrow> p\<lparr>start_date := d\<rparr>
      | EndChange d \<Rightarrow> p\<lparr>end_date := d\<rparr>
      | TimerFires \<Rightarrow> timeoutFires p)"

definition panel_step :: "panel_event \<Rightarrow> Panel \<Rightarrow> Panel" where
  "panel_step e p = rerender p (panel_handler e p)"


text \<open>The calls the panel makes to the page during a run, in order.\<close>

fun applied :: "panel_event list \<Rightarrow> Panel \<Rightarrow> callback list" where
  "applied [] p = []"
| "applied (e # es) p =
     (case e of Apply \<Rightarrow> applyFilters p | _ \<Rightarrow> []) @ applied es (panel_step e p)"

text \<open>
  The flag and the recorded pending name go together, and while the flag is set no
  field is chosen.
\<close>

definition pending_shape :: "Panel \<Rightarrow> bool" where
  "pending_shape p =
     (if isSubfieldAmbiguous p
      then ambiguousSubfieldInfo p \<noteq> None \<and> \<not> truthy (fieldId (filters p))
      else ambiguousSubfieldInfo p = None)"

text \<open>A filter state that names a subfield names a field with it.\<close>

definition field_committed :: "FilterState \<Rightarrow> bool" where
  "field_committed f = (subfieldId f = None \<or> fieldId f \<noteq> None)"

text \<open>What holds of every state the panel reaches (lemma \<open>panel_ok_run\<close>).\<close>

definition panel_ok :: "Panel \<Rightarrow> bool" where
  "panel_ok p =
     (pending_shape p \<and> (isSubfieldAmbiguous p \<or> field_committed (filters p)))"

section \<open>A two-field example hierarchy\<close>





section \<open>Comparison session (binary voting page)\<close>

text \<open>
  \<^verbatim>\<open>type Choice = "left" | "right"\<close>; the constructors carry a suffix because
  \<open>Left\<close> and \<open>Right\<close> are constants of HOL already.
\<close>

datatype Choice = Left_choice | Right_choice

record StoredUser =
  user_id :: int
  username :: string

text \<open>\<^verbatim>\<open>PairEntry\<close>; \<open>pair_total\<close> is its field \<^verbatim>\<open>total\<close>.\<close>

record PairEntry =
  index :: int
  pair_total :: int
  left_id :: int
  right_id :: int
  leftData :: "XY list option"
  rightData :: "XY list option"
  leftNorm :: "XY list option"
  rightNorm :: "XY list option"
  choice :: "Choice option"

text \<open>
  The cursor \<^verbatim>\<open>pos\<close> is a JavaScript number. \<^verbatim>\<open>parseInt\<close> can set it to NaN and,
  from a text of several hundred digits, to an infinity, so it is an integer, NaN or one
  of the two infinities. Sums and differences of integers are exact here, as they are in
  JavaScript on the integers below \<open>2^53\<close> in magnitude; the sign of zero is not kept.
\<close>

datatype jsnum = NaN | Num int | PosInfinity | NegInfinity

text \<open>\<^verbatim>\<open>Math.min(a, b)\<close>\<close>

fun js_min :: "jsnum \<Rightarrow> jsnum \<Rightarrow> jsnum" where
  "js_min NaN b = NaN"
| "js_min a NaN = NaN"
| "js_min NegInfinity b = NegInfinity"
| "js_min a NegInfinity = NegInfinity"
| "js_min PosInfinity b = b"
| "js_min a PosInfinity = a"
| "js_min (Num a) (Num b) = Num (min a b)"

text \<open>\<^verbatim>\<open>a + 1\<close>\<close>

fun js_succ :: "jsnum \<Rightarrow> jsnum" where
  "js_succ (Num a) = Num (a + 1)"
| "js_succ NaN = NaN"
| "js_succ PosInfinity = PosInfinity"
| "js_succ NegInfinity = NegInfinity"

text \<open>
  \<^verbatim>\<open>xs.slice(0, e)\<close>: a negative end counts from the end of the array, NaN is read as 0,
  an end beyond the array takes all of it.
\<close>

fun slice0 :: "'a list \<Rightarrow> jsnum \<Rightarrow> 'a list" where
  "slice0 xs NaN = []"
| "slice0 xs (Num e) =
     (if e < 0 then take (nat (int (length xs) + e)) xs else take (nat e) xs)"
| "slice0 xs PosInfinity = xs"
| "slice0 xs NegInfinity = []"

subsection \<open>The text of the cursor\<close>

definition digit_char :: "nat \<Rightarrow> nat" where
  "digit_char d = 48 + d"

definition is_digit :: "nat \<Rightarrow> bool" where
  "is_digit c = (48 \<le> c \<and> c \<le> 57)"

definition digit_val :: "nat \<Rightarrow> nat" where
  "digit_val c = c - 48"

fun nat_digits :: "nat \<Rightarrow> js_text" where
  "nat_digits n =
     (if n < 10 then [digit_char n] else nat_digits (n div 10) @ [digit_char (n mod 10)])"

declare nat_digits.simps [simp del]

text \<open>
  \<^verbatim>\<open>position.toString()\<close>. For an integer it is the decimal text; that is JavaScript's
  text for integers below \<open>10^21\<close> in magnitude (beyond that JavaScript writes an
  exponent, a range no cursor of a history reaches).
\<close>

fun toString :: "jsnum \<Rightarrow> js_text" where
  "toString NaN = utf16 ''NaN''"
| "toString (Num i) = (if i < 0 then 45 # nat_digits (nat (- i)) else nat_digits (nat i))"
| "toString PosInfinity = utf16 ''Infinity''"
| "toString NegInfinity = utf16 ''-Infinity''"

text \<open>
  The double nearest to a natural number, ties to the even significand; \<open>None\<close> when it
  rounds to infinity. \<open>bit_length n\<close> is the number of binary digits of \<open>n\<close>.
\<close>

fun bit_length :: "nat \<Rightarrow> nat" where
  "bit_length n = (if n = 0 then 0 else Suc (bit_length (n div 2)))"

declare bit_length.simps [simp del]

definition nearest_double :: "nat \<Rightarrow> nat option" where
  "nearest_double n =
     (if n < 2 ^ 53 then Some n
      else
        let e = bit_length n - 53;
            q = n div 2 ^ e;
            r = n mod 2 ^ e;
            q' = (if 2 ^ e < 2 * r \<or> (2 * r = 2 ^ e \<and> odd q) then q + 1 else q)
        in if 2 ^ 1024 \<le> q' * 2 ^ e then None else Some (q' * 2 ^ e))"

text \<open>
  \<^verbatim>\<open>parseInt(text, 10)\<close>: leading white space, an optional sign (code units 45 and 43),
  then the longest run of decimal digits; NaN when that run is empty, else the double
  nearest to the number the digits write. (For more than 20 digits the standard lets an
  engine read the digits after the 20th as zeros; the model reads them all.)
\<close>

definition parseInt10 :: "js_text \<Rightarrow> jsnum" where
  "parseInt10 t =
     (let s = dropWhile is_space t;
          neg = (case s of c # _ \<Rightarrow> c = 45 | [] \<Rightarrow> False);
          body = (case s of c # r \<Rightarrow> if c = 45 \<or> c = 43 then r else s
                  | [] \<Rightarrow> []);
          z = takeWhile is_digit body
      in if z = [] then NaN
         else (case nearest_double (foldl (\<lambda>a c. 10 * a + digit_val c) 0 z) of
                 None \<Rightarrow> if neg then NegInfinity else PosInfinity
               | Some v \<Rightarrow> Num (if neg then - int v else int v)))"

subsection \<open>The durable store\<close>

text \<open>
  \<^verbatim>\<open>localStorage\<close>, as far as this page uses it. The text under \<^verbatim>\<open>history_<id>\<close> is
  represented by what the platform makes of it when the page reads it back: nothing
  stored, the empty text (falsy, never parsed), a text \<^verbatim>\<open>JSON.parse\<close> rejects, or the
  value \<^verbatim>\<open>JSON.parse\<close> returns. Of the values it can return the model keeps
  \<^verbatim>\<open>null\<close>, a value without a \<^verbatim>\<open>length\<close> (a number, a boolean, a plain object) and an
  array of well-formed pair entries; \<^verbatim>\<open>JSON.stringify\<close> of a history is the text that
  parses back to that history. The text under \<^verbatim>\<open>position_<id>\<close> is kept as it is.
  Both are keyed by the user id that the key text embeds. \<open>writable\<close> is false when
  \<^verbatim>\<open>setItem\<close> throws (quota exceeded): the page catches that and logs it.
\<close>

datatype parsed = PNull | PNoLength | PArray "PairEntry list"

datatype history_item = HistoryMissing | HistoryEmpty | HistoryNotJSON | HistoryJSON parsed

record Storage =
  history_at :: "int \<Rightarrow> history_item"
  position_at :: "int \<Rightarrow> js_text option"
  writable :: bool

definition emptyStorage :: Storage where
  "emptyStorage =
     \<lparr>history_at = (\<lambda>_. HistoryMissing), position_at = (\<lambda>_. None), writable = True\<rparr>"

definition saveHistoryToLocalStorage ::
    "StoredUser option \<Rightarrow> PairEntry list \<Rightarrow> Storage \<Rightarrow> Storage" where
  "saveHistoryToLocalStorage u currentHistory st =
     (case u of
        None \<Rightarrow> st
      | Some usr \<Rightarrow>
          if writable st
          then st\<lparr>history_at := (history_at st)(user_id usr := HistoryJSON (PArray currentHistory))\<rparr>
          else st)"

definition loadHistoryFromLocalStorage :: "StoredUser option \<Rightarrow> Storage \<Rightarrow> parsed" where
  "loadHistoryFromLocalStorage u st =
     (case u of
        None \<Rightarrow> PArray []
      | Some usr \<Rightarrow>
          (case history_at st (user_id usr) of
             HistoryMissing \<Rightarrow> PArray []
           | HistoryEmpty \<Rightarrow> PArray []
           | HistoryNotJSON \<Rightarrow> PArray []
           | HistoryJSON v \<Rightarrow> v))"

definition savePositionToLocalStorage :: "StoredUser option \<Rightarrow> jsnum \<Rightarrow> Storage \<Rightarrow> Storage" where
  "savePositionToLocalStorage u position st =
     (case u of
        None \<Rightarrow> st
      | Some usr \<Rightarrow>
          if writable st
          then st\<lparr>position_at := (position_at st)(user_id usr := Some (toString position))\<rparr>
          else st)"

definition loadPositionFromLocalStorage :: "StoredUser option \<Rightarrow> Storage \<Rightarrow> jsnum" where
  "loadPositionFromLocalStorage u st =
     (case u of
        None \<Rightarrow> Num (- 1)
      | Some usr \<Rightarrow>
          (case position_at st (user_id usr) of
             None \<Rightarrow> Num (- 1)
           | Some storedPosition \<Rightarrow>
               if storedPosition = [] then Num (- 1) else parseInt10 storedPosition))"

subsection \<open>Server requests\<close>

record Vote =
  v_user_id :: int
  v_pair_index :: int
  v_left_id :: int
  v_right_id :: int
  v_choice :: Choice
  v_rt_ms :: int

text \<open>
  The calls of \<^verbatim>\<open>api/client.ts\<close> a session can make. \<open>GetBinaryPair\<close> (a pair asked for by
  its index) is exported by the client and never called by the page.
\<close>

datatype request =
    GetNextBinaryPair int
  | GetBinaryPair int int
  | GetFrequency int
  | SubmitBinaryVote Vote

record NextPairData =
  nxt_index :: int
  nxt_total :: int
  nxt_left_id :: int
  nxt_right_id :: int

text \<open>
  What the server does to one call of \<^verbatim>\<open>fetchNext\<close>: the next-pair request fails, it
  reports \<^verbatim>\<open>done\<close>, a frequency request fails, or all three requests succeed.
\<close>

datatype fetch_outcome =
    NextFailed
  | NextDone
  | FrequencyFailed NextPairData
  | Fetched NextPairData "XY list" "XY list"

datatype submit_outcome = SubmitResolved | SubmitRejected

subsection \<open>Page state and handlers\<close>

text \<open>
  The state of \<^verbatim>\<open>BinaryVotingPage\<close>, the store it writes and the requests it has sent so
  far. \<open>done_flag\<close> is the state variable \<^verbatim>\<open>done\<close>, renamed because \<open>done\<close> is a
  keyword.
\<close>

record Session =
  user :: "StoredUser option"
  history :: "PairEntry list"
  pos :: jsnum
  done_flag :: bool
  loading :: bool
  historyLoaded :: bool
  rtStartRef :: int
  storage :: Storage
  sent :: "request list"

text \<open>A freshly mounted page for the user read from \<^verbatim>\<open>ngram_user\<close>, over a given store.\<close>

definition mount :: "StoredUser option \<Rightarrow> Storage \<Rightarrow> Session" where
  "mount u st =
     \<lparr>user = u, history = [], pos = Num (- 1), done_flag = False, loading = False,
      historyLoaded = False, rtStartRef = 0, storage = st, sent = []\<rparr>"

datatype js_error = TypeError

text \<open>
  The effect "Load saved data when user is available". Reading \<^verbatim>\<open>.length\<close> of
  \<^verbatim>\<open>null\<close> throws; of a value without that property it gives \<^verbatim>\<open>undefined\<close>, and
  \<^verbatim>\<open>undefined > 0\<close> is false.
\<close>

definition loadEffect :: "int \<Rightarrow> Session \<Rightarrow> js_error + Session" where
  "loadEffect now s =
     (if user s = None \<or> historyLoaded s then Inr s
      else
        let savedHistory = loadHistoryFromLocalStorage (user s) (storage s);
            savedPosition = loadPositionFromLocalStorage (user s) (storage s)
        in case savedHistory of
             PNull \<Rightarrow> Inl TypeError
           | PNoLength \<Rightarrow> Inr (s\<lparr>pos := Num (- 1), historyLoaded := True\<rparr>)
           | PArray h \<Rightarrow>
               if length h > 0
               then Inr (s\<lparr>history := h,
                           pos := js_min savedPosition (Num (int (length h) - 1)),
                           rtStartRef := now, historyLoaded := True\<rparr>)
               else Inr (s\<lparr>pos := Num (- 1), historyLoaded := True\<rparr>))"

text \<open>\<^verbatim>\<open>const current = pos >= 0 ? history[pos] : undefined\<close>\<close>

definition current :: "Session \<Rightarrow> PairEntry option" where
  "current s =
     (case pos s of
        Num p \<Rightarrow> if 0 \<le> p \<and> p < int (length (history s))
                 then Some (history s ! nat p) else None
      | _ \<Rightarrow> None)"

text \<open>The condition of the effect "Fetch next pair when needed".\<close>

definition fetchDue :: "Session \<Rightarrow> bool" where
  "fetchDue s =
     (user s \<noteq> None \<and> historyLoaded s \<and>
      (history s = [] \<or>
       (pos s = Num (int (length (history s)) - 1) \<and>
        (case current s of None \<Rightarrow> False | Some cur \<Rightarrow> choice cur \<noteq> None))))"

text \<open>
  \<^verbatim>\<open>fetchNext\<close>, run to its end with the server's answer. \<open>now\<close> is the clock when the
  new pair is shown.
\<close>

definition fetchNext :: "int \<Rightarrow> fetch_outcome \<Rightarrow> Session \<Rightarrow> Session" where
  "fetchNext now outcome s =
     (case user s of
        None \<Rightarrow> s
      | Some usr \<Rightarrow>
          let s1 = s\<lparr>sent := sent s @ [GetNextBinaryPair (user_id usr)]\<rparr>
          in (case outcome of
               NextFailed \<Rightarrow> s1\<lparr>loading := False\<rparr>
             | NextDone \<Rightarrow> s1\<lparr>done_flag := True, loading := False\<rparr>
             | FrequencyFailed nxt \<Rightarrow>
                 s1\<lparr>sent := sent s1 @ [GetFrequency (nxt_left_id nxt),
                                        GetFrequency (nxt_right_id nxt)],
                    loading := False\<rparr>
             | Fetched nxt left right \<Rightarrow>
                 let norm = normalizePair_local left right;
                     entry = \<lparr>index = nxt_index nxt, pair_total = nxt_total nxt,
                              left_id = nxt_left_id nxt, right_id = nxt_right_id nxt,
                              leftData = Some left, rightData = Some right,
                              leftNorm = Some (fst norm), rightNorm = Some (snd norm),
                              choice = None\<rparr>;
                     newHistory = slice0 (history s) (js_succ (pos s)) @ [entry];
                     newPos = js_succ (pos s)
                 in s1\<lparr>sent := sent s1 @ [GetFrequency (nxt_left_id nxt),
                                           GetFrequency (nxt_right_id nxt)],
                       history := newHistory,
                       pos := newPos,
                       storage := savePositionToLocalStorage (user s) newPos
                                    (saveHistoryToLocalStorage (user s) newHistory (storage s)),
                       rtStartRef := now,
                       loading := False\<rparr>))"

definition selectChoice :: "Choice \<Rightarrow> Session \<Rightarrow> Session" where
  "selectChoice c s =
     (case current s of
        None \<Rightarrow> s
      | Some cur \<Rightarrow>
          let p = (case pos s of Num i \<Rightarrow> nat i | _ \<Rightarrow> 0);
              prev = choice cur;
              newHistory = (history s)[p := cur\<lparr>choice := (if prev = Some c then None else Some c)\<rparr>]
          in s\<lparr>history := newHistory,
               storage := saveHistoryToLocalStorage (user s) newHistory (storage s)\<rparr>)"

definition onPrev :: "int \<Rightarrow> Session \<Rightarrow> Session" where
  "onPrev now s =
     (case pos s of
        Num p \<Rightarrow>
          if p > 0
          then s\<lparr>pos := Num (p - 1),
                 storage := savePositionToLocalStorage (user s) (Num (p - 1)) (storage s),
                 rtStartRef := now\<rparr>
          else s
      | PosInfinity \<Rightarrow>
          s\<lparr>storage := savePositionToLocalStorage (user s) PosInfinity (storage s),
            rtStartRef := now\<rparr>
      | _ \<Rightarrow> s)"

text \<open>
  \<^verbatim>\<open>onNext\<close>, run to its end: \<open>now\<close> is the clock at the click, \<open>later\<close> the clock
  after the vote was stored, \<open>sub\<close> and \<open>outcome\<close> the server's answers to the vote and to
  the call of \<^verbatim>\<open>fetchNext\<close>, if one is made.
\<close>

definition onNext :: "int \<Rightarrow> int \<Rightarrow> submit_outcome \<Rightarrow> fetch_outcome \<Rightarrow> Session \<Rightarrow> Session" where
  "onNext now later sub outcome s =
     (case (user s, current s) of
        (Some usr, Some cur) \<Rightarrow>
          (case choice cur of
             None \<Rightarrow> s
           | Some ch \<Rightarrow>
               let rt_ms = now - rtStartRef s;
                   s1 = s\<lparr>sent := sent s @
                            [SubmitBinaryVote
                               \<lparr>v_user_id = user_id usr, v_pair_index = index cur,
                                v_left_id = left_id cur, v_right_id = right_id cur,
                                v_choice = ch, v_rt_ms = rt_ms\<rparr>]\<rparr>
               in (case sub of
                    SubmitRejected \<Rightarrow> s1
                  | SubmitResolved \<Rightarrow>
                      if pos s = Num (int (length (history s)) - 1)
                      then fetchNext later outcome s1
                      else
                        let newPos = js_succ (pos s)
                        in s1\<lparr>pos := newPos,
                              storage := savePositionToLocalStorage (user s) newPos (storage s),
                              rtStartRef := later\<rparr>))
      | _ \<Rightarrow> s)"

text \<open>
  What the page shows decides which handlers a user can call. Before the history is
  loaded and after the server reported the end there are no buttons; the two charts and
  the Previous and Next buttons are rendered only while \<^verbatim>\<open>loading\<close> is false and the
  current pair has both normalised series.
\<close>

definition buttons_shown :: "Session \<Rightarrow> bool" where
  "buttons_shown s =
     (historyLoaded s \<and> \<not> done_flag s \<and> \<not> loading s \<and>
      (case current s of
         None \<Rightarrow> False
       | Some cur \<Rightarrow> leftNorm cur \<noteq> None \<and> rightNorm cur \<noteq> None))"

subsection \<open>The page, one reply at a time\<close>

text \<open>
  \<^verbatim>\<open>onNext\<close> and \<^verbatim>\<open>fetchNext\<close> are asynchronous: each runs up to an \<^verbatim>\<open>await\<close>,
  and goes on when the server's reply arrives, with the \<^verbatim>\<open>pos\<close> and \<^verbatim>\<open>history\<close> of the
  render that started it. Between the two, other events run. A suspended call is what
  it still needs from its closure: \<^verbatim>\<open>onNext\<close> waiting for the vote keeps \<^verbatim>\<open>pos\<close> and
  \<^verbatim>\<open>history.length\<close>; \<^verbatim>\<open>fetchNext\<close> keeps \<^verbatim>\<open>pos\<close>, and after the first reply the
  pair it was given.
\<close>

datatype call =
    AwaitSubmit jsnum nat
  | AwaitNextPair jsnum
  | AwaitFrequency jsnum NextPairData

datatype pair_reply = PairRejected | PairDone | PairIs NextPairData

datatype series_reply = SeriesRejected | SeriesAre "XY list" "XY list"

datatype server_reply =
    VoteReply submit_outcome
  | PairReply pair_reply
  | SeriesReply series_reply

text \<open>\<^verbatim>\<open>fetchNext\<close> up to \<^verbatim>\<open>await getNextBinaryPair\<close>, called from a render with cursor \<open>cpos\<close>.\<close>

definition fetchNext_start :: "jsnum \<Rightarrow> Session \<Rightarrow> Session \<times> call list" where
  "fetchNext_start cpos s =
     (case user s of
        None \<Rightarrow> (s, [])
      | Some usr \<Rightarrow>
          (s\<lparr>loading := True, sent := sent s @ [GetNextBinaryPair (user_id usr)]\<rparr>,
           [AwaitNextPair cpos]))"

text \<open>\<^verbatim>\<open>fetchNext\<close> from the next-pair reply up to \<^verbatim>\<open>await Promise.all\<close>.\<close>

definition fetchNext_pair :: "jsnum \<Rightarrow> pair_reply \<Rightarrow> Session \<Rightarrow> Session \<times> call list" where
  "fetchNext_pair cpos r s =
     (case r of
        PairRejected \<Rightarrow> (s\<lparr>loading := False\<rparr>, [])
      | PairDone \<Rightarrow> (s\<lparr>done_flag := True, loading := False\<rparr>, [])
      | PairIs nxt \<Rightarrow>
          (s\<lparr>sent := sent s @ [GetFrequency (nxt_left_id nxt),
                                 GetFrequency (nxt_right_id nxt)]\<rparr>,
           [AwaitFrequency cpos nxt]))"

text \<open>
  \<^verbatim>\<open>fetchNext\<close> from the frequency replies to its end. The new history is cut with the
  closure's cursor \<open>cpos\<close>; the new cursor is one more than the cursor the page has at
  that moment (\<^verbatim>\<open>setPos((prevPos) => prevPos + 1)\<close>).
\<close>

definition fetchNext_series ::
    "jsnum \<Rightarrow> NextPairData \<Rightarrow> series_reply \<Rightarrow> int \<Rightarrow> Session \<Rightarrow> Session" where
  "fetchNext_series cpos nxt r now s =
     (case r of
        SeriesRejected \<Rightarrow> s\<lparr>loading := False\<rparr>
      | SeriesAre left right \<Rightarrow>
          let norm = normalizePair_local left right;
              entry = \<lparr>index = nxt_index nxt, pair_total = nxt_total nxt,
                       left_id = nxt_left_id nxt, right_id = nxt_right_id nxt,
                       leftData = Some left, rightData = Some right,
                       leftNorm = Some (fst norm), rightNorm = Some (snd norm),
                       choice = None\<rparr>;
              newHistory = slice0 (history s) (js_succ cpos) @ [entry];
              newPos = js_succ (pos s)
          in s\<lparr>history := newHistory,
               pos := newPos,
               storage := savePositionToLocalStorage (user s) newPos
                            (saveHistoryToLocalStorage (user s) newHistory (storage s)),
               rtStartRef := now,
               loading := False\<rparr>)"

text \<open>\<^verbatim>\<open>onNext\<close> up to \<^verbatim>\<open>await submitBinaryVote\<close>.\<close>

definition onNext_click :: "int \<Rightarrow> Session \<Rightarrow> Session \<times> call list" where
  "onNext_click now s =
     (case (user s, current s) of
        (Some usr, Some cur) \<Rightarrow>
          (case choice cur of
             None \<Rightarrow> (s, [])
           | Some ch \<Rightarrow>
               (s\<lparr>sent := sent s @
                     [SubmitBinaryVote
                        \<lparr>v_user_id = user_id usr, v_pair_index = index cur,
                         v_left_id = left_id cur, v_right_id = right_id cur,
                         v_choice = ch, v_rt_ms = now - rtStartRef s\<rparr>]\<rparr>,
                [AwaitSubmit (pos s) (length (history s))]))
      | _ \<Rightarrow> (s, []))"

text \<open>
  \<^verbatim>\<open>onNext\<close> from the vote's reply on, for the call whose closure has cursor \<open>cpos\<close> and a
  history of \<open>clen\<close> entries.
\<close>

definition onNext_resume ::
    "jsnum \<Rightarrow> nat \<Rightarrow> submit_outcome \<Rightarrow> int \<Rightarrow> Session \<Rightarrow> Session \<times> call list" where
  "onNext_resume cpos clen sub later s =
     (case sub of
        SubmitRejected \<Rightarrow> (s, [])
      | SubmitResolved \<Rightarrow>
          if cpos = Num (int clen - 1)
          then fetchNext_start cpos s
          else (s\<lparr>pos := js_succ cpos,
                  storage := savePositionToLocalStorage (user s) (js_succ cpos) (storage s),
                  rtStartRef := later\<rparr>, []))"

text \<open>
  The events of the page: its two effects, the three kinds of click, and the arrival of
  the reply that the \<open>i\<close>-th suspended call waits for (with the clock at that moment).
  The fetch effect runs after a render that changed its dependencies, if its condition
  holds then; the model lets it run at any moment at which the condition holds.
\<close>

datatype page_event =
    LoadRuns int
  | ClickChoice Choice
  | ClickPrev int
  | ClickNext int
  | FetchEffectRuns
  | Answer nat server_reply int

definition resume :: "call \<Rightarrow> server_reply \<Rightarrow> int \<Rightarrow> Session \<Rightarrow> (Session \<times> call list) option" where
  "resume c r now s =
     (case (c, r) of
        (AwaitSubmit cpos clen, VoteReply sub) \<Rightarrow> Some (onNext_resume cpos clen sub now s)
      | (AwaitNextPair cpos, PairReply pr) \<Rightarrow> Some (fetchNext_pair cpos pr s)
      | (AwaitFrequency cpos nxt, SeriesReply sr) \<Rightarrow>
          Some (fetchNext_series cpos nxt sr now s, [])
      | _ \<Rightarrow> None)"

definition page_step :: "page_event \<Rightarrow> Session \<times> call list \<Rightarrow> Session \<times> call list" where
  "page_step e st =
     (let s = fst st; cs = snd st
      in case e of
           LoadRuns now \<Rightarrow> (case loadEffect now s of Inl _ \<Rightarrow> (s, cs) | Inr s' \<Rightarrow> (s', cs))
         | ClickChoice c \<Rightarrow> if buttons_shown s then (selectChoice c s, cs) else (s, cs)
         | ClickPrev now \<Rightarrow> if buttons_shown s then (onPrev now s, cs) else (s, cs)
         | ClickNext now \<Rightarrow>
             if buttons_shown s
             then (fst (onNext_click now s), cs @ snd (onNext_click now s))
             else (s, cs)
         | FetchEffectRuns \<Rightarrow>
             if fetchDue s
             then (fst (fetchNext_start (pos s) s), cs @ snd (fetchNext_start (pos s) s))
             else (s, cs)
         | Answer i r now \<Rightarrow>
             if i < length cs
             then (case resume (cs ! i) r now s of
                     None \<Rightarrow> (s, cs)
                   | Some res \<Rightarrow> (fst res, take i cs @ drop (Suc i) cs @ snd res))
             else (s, cs))"

definition page_run :: "page_event list \<Rightarrow> Session \<times> call list \<Rightarrow> Session \<times> call list" where
  "page_run es st = fold page_step es st"

subsection \<open>The page when no two calls overlap\<close>

text \<open>
  An event of the page together with the replies it waits for: the handler or effect
  runs to its end before anything else happens. These are the runs of the page in which
  every Next and every fetch has received its replies before the next event; they are
  runs of \<open>page_step\<close> (lemma \<open>session_step_schedule\<close>), not all of them. A throwing load
  effect leaves the state as it was.
\<close>

datatype event =
    Load int
  | Select Choice
  | Prev int
  | Next int int submit_outcome fetch_outcome
  | FetchEffect int fetch_outcome

definition session_step :: "event \<Rightarrow> Session \<Rightarrow> Session" where
  "session_step e s =
     (case e of
        Load now \<Rightarrow> (case loadEffect now s of Inl _ \<Rightarrow> s | Inr s' \<Rightarrow> s')
      | Select c \<Rightarrow> if buttons_shown s then selectChoice c s else s
      | Prev now \<Rightarrow> if buttons_shown s then onPrev now s else s
      | Next now later sub outcome \<Rightarrow>
          if buttons_shown s then onNext now later sub outcome s else s
      | FetchEffect now outcome \<Rightarrow> if fetchDue s then fetchNext now outcome s else s)"

definition session_run :: "event list \<Rightarrow> Session \<Rightarrow> Session" where
  "session_run es s = fold session_step es s"

text \<open>The replies of one call of \<^verbatim>\<open>fetchNext\<close>, for the suspended call number \<open>n\<close>.\<close>

fun fetch_answers :: "fetch_outcome \<Rightarrow> nat \<Rightarrow> int \<Rightarrow> page_event list" where
  "fetch_answers NextFailed n t = [Answer n (PairReply PairRejected) t]"
| "fetch_answers NextDone n t = [Answer n (PairReply PairDone) t]"
| "fetch_answers (FrequencyFailed nxt) n t =
     [Answer n (PairReply (PairIs nxt)) t, Answer n (SeriesReply SeriesRejected) t]"
| "fetch_answers (Fetched nxt left right) n t =
     [Answer n (PairReply (PairIs nxt)) t, Answer n (SeriesReply (SeriesAre left right)) t]"

text \<open>
  The events of \<open>page_step\<close> that make up one event of \<open>session_step\<close>, when \<open>n\<close> calls
  are suspended already.
\<close>

fun schedule :: "event \<Rightarrow> nat \<Rightarrow> page_event list" where
  "schedule (Load now) n = [LoadRuns now]"
| "schedule (Select c) n = [ClickChoice c]"
| "schedule (Prev now) n = [ClickPrev now]"
| "schedule (Next now later sub outcome) n =
     ClickNext now # Answer n (VoteReply sub) later # fetch_answers outcome n later"
| "schedule (FetchEffect now outcome) n = FetchEffectRuns # fetch_answers outcome n now"


section \<open>Cursor predicates and example sessions\<close>

text \<open>The cursor is NaN or at most \<open>n\<close>.\<close>

fun at_most :: "jsnum \<Rightarrow> int \<Rightarrow> bool" where
  "at_most NaN n = True"
| "at_most (Num p) n = (p \<le> n)"
| "at_most PosInfinity n = False"
| "at_most NegInfinity n = True"

text \<open>
  The cursor never runs past the last pair, and an empty history has the cursor \<open>-1\<close>.
\<close>

definition cursor_ok :: "Session \<Rightarrow> bool" where
  "cursor_ok s =
     ((history s = [] \<and> pos s = Num (- 1)) \<or>
      (history s \<noteq> [] \<and> at_most (pos s) (int (length (history s)) - 1)))"


subsection \<open>An example session\<close>

definition exampleUser :: StoredUser where
  "exampleUser = \<lparr>user_id = 7, username = ''rater''\<rparr>"

definition exampleLeft :: "XY list" where
  "exampleLeft = [\<lparr>date = ''2020-01-01'', count = 1\<rparr>, \<lparr>date = ''2021-01-01'', count = 4\<rparr>]"

definition exampleRight :: "XY list" where
  "exampleRight = [\<lparr>date = ''2020-01-01'', count = 2\<rparr>, \<lparr>date = ''2021-01-01'', count = 0\<rparr>]"

definition examplePair :: "int \<Rightarrow> NextPairData" where
  "examplePair i = \<lparr>nxt_index = i, nxt_total = 100, nxt_left_id = 10 + 2 * i,
                     nxt_right_id = 11 + 2 * i\<rparr>"

text \<open>
  A fresh user's first visit: the page loads an empty store and fetches pair 0, the user
  picks the left chart and presses Next (the vote is sent, pair 1 is fetched).
\<close>

definition exampleSession :: Session where
  "exampleSession =
     session_run [Load 0,
                  FetchEffect 1 (Fetched (examplePair 0) exampleLeft exampleRight),
                  Select Left_choice,
                  Next 2 3 SubmitResolved (Fetched (examplePair 1) exampleLeft exampleRight)]
       (mount (Some exampleUser) emptyStorage)"

text \<open>The entry the page builds for \<open>examplePair i\<close>, carrying the choice \<open>ch\<close>.\<close>

definition exampleEntry :: "int \<Rightarrow> Choice option \<Rightarrow> PairEntry" where
  "exampleEntry i ch =
     \<lparr>index = i, pair_total = 100, left_id = 10 + 2 * i, right_id = 11 + 2 * i,
      leftData = Some exampleLeft, rightData = Some exampleRight,
      leftNorm = Some [\<lparr>date = ''2020-01-01'', count = 1 / 4\<rparr>,
                       \<lparr>date = ''2021-01-01'', count = 1\<rparr>],
      rightNorm = Some [\<lparr>date = ''2020-01-01'', count = 1 / 2\<rparr>,
                        \<lparr>date = ''2021-01-01'', count = 0\<rparr>],
      choice = ch\<rparr>"





section \<open>Facts about the normaliser\<close>

lemma maxCount_Max: "maxCount series = Max (set (0 # map count series))"
  unfolding maxCount_def by (simp only: Max.set_eq_fold)

lemma maxCount_nonneg: "0 \<le> maxCount series"
  unfolding maxCount_Max by simp

lemma maxCount_upper: "p \<in> set series \<Longrightarrow> count p \<le> maxCount series"
  unfolding maxCount_Max by (rule Max_ge) auto

lemma maxCount_all_zero:
  "(\<And>p. p \<in> set series \<Longrightarrow> count p = 0) \<Longrightarrow> maxCount series = 0"
  unfolding maxCount_def by (induction series) auto

lemma count_rescale [simp]: "count (rescale m p) = safeDiv (count p) m"
  by (simp add: rescale_def)

lemma safeDiv_upper: "a \<le> m \<Longrightarrow> 0 \<le> m \<Longrightarrow> safeDiv a m \<le> 1"
  by (simp add: safeDiv_def divide_le_eq_1)

lemma safeDiv_lower: "0 \<le> a \<Longrightarrow> 0 \<le> m \<Longrightarrow> 0 \<le> safeDiv a m"
  by (simp add: safeDiv_def)

text \<open>
  Claim C3, as amended. For any two series: both outputs have the lengths of their
  inputs; every output count is at most 1; the output count at a position is at least 0
  whenever the input count at that position is; if \<open>maxBoth\<close> is 0 every output count
  is 0, and so it is when every input count is zero. Only the lower bound depends on the
  sign of the input.
\<close>

theorem normalizePair_unit_interval:
  "length (fst (normalizePair left right)) = length left
   \<and> length (snd (normalizePair left right)) = length right
   \<and> (\<forall>q \<in> set (fst (normalizePair left right)) \<union> set (snd (normalizePair left right)).
         count q \<le> 1)
   \<and> (\<forall>i < length left.
         0 \<le> count (left ! i) \<longrightarrow> 0 \<le> count (fst (normalizePair left right) ! i))
   \<and> (\<forall>i < length right.
         0 \<le> count (right ! i) \<longrightarrow> 0 \<le> count (snd (normalizePair left right) ! i))
   \<and> (max (max (maxCount left) (maxCount right)) 0 = 0 \<longrightarrow>
         (\<forall>q \<in> set (fst (normalizePair left right)) \<union> set (snd (normalizePair left right)).
            count q = 0))
   \<and> ((\<forall>p \<in> set left \<union> set right. count p = 0) \<longrightarrow>
         (\<forall>q \<in> set (fst (normalizePair left right)) \<union> set (snd (normalizePair left right)).
            count q = 0))"
proof -
  let ?m = "max (max (maxCount left) (maxCount right)) 0"
  have out: "fst (normalizePair left right) = map (rescale ?m) left"
            "snd (normalizePair left right) = map (rescale ?m) right"
    by (simp_all add: normalizePair_def Let_def)
  have m0: "0 \<le> ?m" by simp
  have bound: "count p \<le> ?m" if "p \<in> set left \<union> set right" for p
    using that maxCount_upper [of p left] maxCount_upper [of p right] by auto
  have upper: "count (rescale ?m p) \<le> 1" if "p \<in> set left \<union> set right" for p
    using bound [OF that] m0 by (simp add: safeDiv_upper)
  have lower: "0 \<le> count (rescale ?m p)" if "0 \<le> count p" for p
    using that m0 by (simp add: safeDiv_lower)
  have zero: "count (rescale ?m p) = 0" if "?m = 0" for p
    using that by (simp add: safeDiv_def)
  have allz: "count (rescale ?m p) = 0" if "count p = 0" for p
    using that by (simp add: safeDiv_def)
  have src: "\<exists>p \<in> set left \<union> set right. q = rescale ?m p"
    if "q \<in> set (fst (normalizePair left right)) \<union> set (snd (normalizePair left right))" for q
    using that unfolding out by auto
  show ?thesis
  proof (intro conjI impI ballI allI)
    show "length (fst (normalizePair left right)) = length left"
      "length (snd (normalizePair left right)) = length right"
      by (simp_all add: out)
  next
    fix q assume "q \<in> set (fst (normalizePair left right)) \<union> set (snd (normalizePair left right))"
    then show "count q \<le> 1" using src upper by blast
  next
    fix i assume "i < length left" "0 \<le> count (left ! i)"
    then show "0 \<le> count (fst (normalizePair left right) ! i)"
      unfolding out using lower by simp
  next
    fix i assume "i < length right" "0 \<le> count (right ! i)"
    then show "0 \<le> count (snd (normalizePair left right) ! i)"
      unfolding out using lower by simp
  next
    fix q assume "?m = 0"
      and "q \<in> set (fst (normalizePair left right)) \<union> set (snd (normalizePair left right))"
    then show "count q = 0" using src zero by blast
  next
    fix q assume "\<forall>p \<in> set left \<union> set right. count p = 0"
      and "q \<in> set (fst (normalizePair left right)) \<union> set (snd (normalizePair left right))"
    then show "count q = 0" using src allz by blast
  qed
qed

text \<open>
  The theorem at three inputs. A lone negative count makes \<open>maxBoth\<close> zero, and the
  output count is 0 (the page-local copy of the function returns \<open>-1\<close> there). Beside a
  positive maximum, non-negative counts land between 0 and 1. Two series of zeros stay
  zero.
\<close>

theorem normalizePair_unit_interval_witness:
  "count (hd (fst (normalizePair [\<lparr>date = ''2020-01-01'', count = - 1\<rparr>] []))) = 0
   \<and> 0 \<le> count (fst (normalizePair [\<lparr>date = ''2020-01-01'', count = 1\<rparr>]
                                     [\<lparr>date = ''2020-01-01'', count = 4\<rparr>]) ! 0)
   \<and> count (fst (normalizePair [\<lparr>date = ''2020-01-01'', count = 1\<rparr>]
                               [\<lparr>date = ''2020-01-01'', count = 4\<rparr>]) ! 0) \<le> 1
   \<and> 0 \<le> count (snd (normalizePair [\<lparr>date = ''2020-01-01'', count = 1\<rparr>]
                                     [\<lparr>date = ''2020-01-01'', count = 4\<rparr>]) ! 0)
   \<and> count (hd (snd (normalizePair [\<lparr>date = ''2020-01-01'', count = 0\<rparr>]
                                   [\<lparr>date = ''2020-01-01'', count = 0\<rparr>]))) = 0"
proof -
  let ?N = "[\<lparr>date = ''2020-01-01'', count = - 1\<rparr>]"
  let ?L = "[\<lparr>date = ''2020-01-01'', count = 1\<rparr>]"
  let ?R = "[\<lparr>date = ''2020-01-01'', count = 4\<rparr>]"
  let ?Z = "[\<lparr>date = ''2020-01-01'', count = 0\<rparr>]"
  have m: "max (max (maxCount ?N) (maxCount [])) 0 = 0"
    by (simp add: maxCount_def)
  have memN: "hd (fst (normalizePair ?N []))
                \<in> set (fst (normalizePair ?N [])) \<union> set (snd (normalizePair ?N []))"
    by (simp add: normalizePair_def Let_def)
  have memL: "fst (normalizePair ?L ?R) ! 0
                \<in> set (fst (normalizePair ?L ?R)) \<union> set (snd (normalizePair ?L ?R))"
    by (simp add: normalizePair_def Let_def)
  have memZ: "hd (snd (normalizePair ?Z ?Z))
                \<in> set (fst (normalizePair ?Z ?Z)) \<union> set (snd (normalizePair ?Z ?Z))"
    by (simp add: normalizePair_def Let_def)
  have nonneg: "(0::nat) < length ?L" "0 \<le> count (?L ! 0)"
    "(0::nat) < length ?R" "0 \<le> count (?R ! 0)" by simp_all
  have zeros: "\<forall>p \<in> set ?Z \<union> set ?Z. count p = 0" by simp
  from normalizePair_unit_interval [of ?N "[]"] m memN
  have 1: "count (hd (fst (normalizePair ?N []))) = 0" by blast
  from normalizePair_unit_interval [of ?L ?R] memL nonneg
  have 2: "0 \<le> count (fst (normalizePair ?L ?R) ! 0)"
    and 3: "count (fst (normalizePair ?L ?R) ! 0) \<le> 1"
    and 4: "0 \<le> count (snd (normalizePair ?L ?R) ! 0)" by blast+
  from normalizePair_unit_interval [of ?Z ?Z] memZ zeros
  have 5: "count (hd (snd (normalizePair ?Z ?Z))) = 0" by blast
  from 1 2 3 4 5 show ?thesis by simp
qed

text \<open>
  Claim C3 as stated ("for all input series") fails: a negative count next to a positive
  maximum is rescaled to a negative output. Here \<open>-1\<close> beside \<open>2\<close> becomes \<open>-1/2\<close>.
\<close>

theorem normalizePair_negative_counterexample:
  "count (hd (fst (normalizePair [\<lparr>date = ''2020-01-01'', count = - 1\<rparr>]
                                 [\<lparr>date = ''2020-01-01'', count = 2\<rparr>]))) = - 1 / 2"
  by (simp add: normalizePair_def maxCount_def rescale_def safeDiv_def)

text \<open>
  Claim C10. On series whose counts are all non-negative the page-local
  \<open>normalizePair_local\<close> (zero maximum replaced by 1) and the shared \<open>normalizePair\<close>
  (division by zero defined as 0) return the same pair of series.
\<close>

theorem normalizePair_local_agrees:
  assumes "\<forall>p \<in> set left \<union> set right. 0 \<le> count p"
  shows "normalizePair_local left right = normalizePair left right"
proof -
  let ?m = "max (max (maxCount left) (maxCount right)) 0"
  show ?thesis
  proof (cases "?m = 0")
    case False
    then show ?thesis by (simp add: normalizePair_local_def normalizePair_def Let_def)
  next
    case True
    have z: "count p = 0" if "p \<in> set left \<union> set right" for p
    proof -
      have "count p \<le> ?m"
        using that maxCount_upper [of p left] maxCount_upper [of p right] by auto
      moreover have "0 \<le> count p" using assms that by blast
      ultimately show ?thesis using True by linarith
    qed
    have "rescale 1 p = rescale 0 p" if "p \<in> set left \<union> set right" for p
      using z [OF that] by (simp add: rescale_def safeDiv_def)
    then have "map (rescale 1) left = map (rescale 0) left"
              "map (rescale 1) right = map (rescale 0) right"
      by simp_all
    with True show ?thesis
      by (simp add: normalizePair_local_def normalizePair_def Let_def)
  qed
qed

theorem normalizePair_local_agrees_witness:
  "normalizePair_local [\<lparr>date = ''2020-01-01'', count = 0\<rparr>] [\<lparr>date = ''2020-01-01'', count = 0\<rparr>]
     = normalizePair [\<lparr>date = ''2020-01-01'', count = 0\<rparr>] [\<lparr>date = ''2020-01-01'', count = 0\<rparr>]
   \<and> fst (normalizePair_local [\<lparr>date = ''2020-01-01'', count = 0\<rparr>]
                               [\<lparr>date = ''2020-01-01'', count = 0\<rparr>])
     = [\<lparr>date = ''2020-01-01'', count = 0\<rparr>]"
proof -
  let ?L = "[\<lparr>date = ''2020-01-01'', count = 0\<rparr>]"
  have h: "\<forall>p \<in> set ?L \<union> set ?L. 0 \<le> count p" by simp
  have "fst (normalizePair_local ?L ?L) = ?L"
    by (simp add: normalizePair_local_def maxCount_def rescale_def safeDiv_def)
  with normalizePair_local_agrees [OF h] show ?thesis by simp
qed


section \<open>Facts about the leaderboard query controller\<close>

lemma settle_stale_noop:
  "reqId \<noteq> lastReqId d \<Longrightarrow> fetchLeaderboard_settle reqId pageArg r d = d"
  by (cases r) (simp_all add: fetchLeaderboard_settle_def)

lemma settle_lastReqId [simp]:
  "lastReqId (fetchLeaderboard_settle reqId pageArg r d) = lastReqId d"
  by (cases r) (simp_all add: fetchLeaderboard_settle_def)

lemma dash_step_lastReqId_mono: "lastReqId d \<le> lastReqId (dash_step e d)"
  by (cases e) (simp_all add: dash_step_def fetchLeaderboard_issue_def Let_def split: option.splits)

lemma dash_run_lastReqId_mono: "lastReqId d \<le> lastReqId (dash_run es d)"
proof (induction es arbitrary: d)
  case Nil
  then show ?case by (simp add: dash_run_def)
next
  case (Cons e es)
  have "lastReqId d \<le> lastReqId (dash_step e d)" by (rule dash_step_lastReqId_mono)
  also have "\<dots> \<le> lastReqId (dash_run es (dash_step e d))" by (rule Cons.IH)
  finally show ?case by (simp add: dash_run_def)
qed

lemma other_settle_same_view:
  assumes "settles_other b e" and "lastReqId d = b"
  shows "same_view d (dash_step e d) b"
proof (cases e)
  case (Issue p)
  with assms show ?thesis by simp
next
  case (Settle k r)
  with assms have kb: "k \<noteq> b" by simp
  with assms have "fetchLeaderboard_settle k pg r d = d" for pg
    by (simp add: settle_stale_noop)
  with kb Settle show ?thesis
    by (simp add: same_view_def dash_step_def split: option.splits)
qed

lemma other_settles_same_view:
  assumes "\<forall>e \<in> set es. settles_other b e" and "lastReqId d = b"
  shows "same_view d (dash_run es d) b"
  using assms
proof (induction es arbitrary: d)
  case Nil
  then show ?case by (simp add: dash_run_def same_view_def)
next
  case (Cons e es)
  have 1: "same_view d (dash_step e d) b"
    using Cons.prems by (simp add: other_settle_same_view)
  then have "lastReqId (dash_step e d) = b"
    using Cons.prems by (simp add: same_view_def)
  with Cons have 2: "same_view (dash_step e d) (dash_run es (dash_step e d)) b" by simp
  from 1 2 show ?case by (simp add: same_view_def dash_run_def)
qed

lemma issue_facts:
  "lastReqId (dash_step (Issue p) d) = Suc (lastReqId d)"
  "inflight (dash_step (Issue p) d) (lastReqId (dash_step (Issue p) d)) = Some p"
  by (simp_all add: dash_step_def fetchLeaderboard_issue_def Let_def)

lemma settle_latest:
  assumes "lastReqId d = b" and "inflight d b = Some p"
  shows "ngrams (dash_step (Settle b (Resolved res)) d) = res_data res"
    and "page (dash_step (Settle b (Resolved res)) d) = p"
    and "totalPages (dash_step (Settle b (Resolved res)) d) = res_total_pages res"
    and "lastReqId (dash_step (Settle b (Resolved res)) d) = b"
  using assms by (simp_all add: dash_step_def fetchLeaderboard_settle_def)

text \<open>
  Claim C1. Request A is issued (\<open>dA\<close>), then, after any further events, request B
  (\<open>dB\<close>; its id is the counter \<open>lastReqId dB\<close>). Whatever replies to other requests
  arrive before and after B's reply (A's among them, with any outcome, in any order), the
  rows, the committed page and the page count end as B's reply and B's page. A's id is
  smaller than B's, so A's reply is one of those other replies. The last conjunct is the
  guard itself: a reply whose captured id is not the counter's current value changes
  nothing.
\<close>

theorem stale_response_guard:
  fixes d0 :: "'row Dashboard"
  assumes before: "dA = dash_step (Issue pA) d0"
      and issued: "dB = dash_step (Issue pB) (dash_run mid dA)"
      and es1: "\<forall>e \<in> set es1. settles_other (lastReqId dB) e"
      and es2: "\<forall>e \<in> set es2. settles_other (lastReqId dB) e"
      and final: "final = dash_run es2 (dash_step (Settle (lastReqId dB) (Resolved resB))
                                              (dash_run es1 dB))"
  shows "ngrams final = res_data resB \<and> page final = pB
         \<and> totalPages final = res_total_pages resB
         \<and> lastReqId dA < lastReqId dB
         \<and> (reqId \<noteq> lastReqId d \<longrightarrow> fetchLeaderboard_settle reqId pageArg r d = d)"
proof -
  let ?b = "lastReqId dB"
  let ?d1 = "dash_run es1 dB"
  let ?d2 = "dash_step (Settle ?b (Resolved resB)) ?d1"
  have captured: "inflight dB ?b = Some pB"
    unfolding issued by (rule issue_facts(2))
  have v1: "same_view dB ?d1 ?b"
    using es1 by (rule other_settles_same_view) simp
  then have l1: "lastReqId ?d1 = ?b" and i1: "inflight ?d1 ?b = Some pB"
    using captured by (simp_all add: same_view_def)
  note applied = settle_latest [OF l1 i1, of resB]
  have v2: "same_view ?d2 (dash_run es2 ?d2) ?b"
    using es2 by (rule other_settles_same_view) (rule applied(4))
  have order: "lastReqId dA < ?b"
  proof -
    have "lastReqId dA \<le> lastReqId (dash_run mid dA)" by (rule dash_run_lastReqId_mono)
    then show ?thesis unfolding issued by (simp add: issue_facts)
  qed
  from v2 applied order show ?thesis
    unfolding final by (simp add: same_view_def settle_stale_noop)
qed

theorem stale_response_guard_witness:
  "ngrams (dash_run [Issue 1, Issue 2,
                     Settle 2 (Resolved \<lparr>res_data = [''b''], res_total_pages = 7\<rparr>),
                     Settle 1 (Resolved \<lparr>res_data = [''a''], res_total_pages = 3\<rparr>)]
             initialDashboard) = [''b'']
   \<and> page (dash_run [Issue 1, Issue 2,
                     Settle 2 (Resolved \<lparr>res_data = [''b''], res_total_pages = 7\<rparr>),
                     Settle 1 (Resolved \<lparr>res_data = [''a''], res_total_pages = 3\<rparr>)]
             initialDashboard) = 2"
proof -
  let ?resA = "\<lparr>res_data = [''a''], res_total_pages = 3\<rparr>"
  let ?resB = "\<lparr>res_data = [''b''], res_total_pages = 7\<rparr>"
  let ?d0 = "initialDashboard :: string Dashboard"
  let ?dA = "dash_step (Issue 1) ?d0"
  let ?dB = "dash_step (Issue 2) (dash_run [] ?dA)"
  have idB: "lastReqId ?dB = 2"
    by (simp add: dash_run_def dash_step_def fetchLeaderboard_issue_def initialDashboard_def)
  have h1: "\<forall>e \<in> set []. settles_other (lastReqId ?dB) (e :: string dash_event)" by simp
  have h2: "\<forall>e \<in> set [Settle 1 (Resolved ?resA)]. settles_other (lastReqId ?dB) e"
    by (simp add: idB)
  have run: "dash_run [Issue 1, Issue 2, Settle 2 (Resolved ?resB), Settle 1 (Resolved ?resA)] ?d0
      = dash_run [Settle 1 (Resolved ?resA)]
          (dash_step (Settle (lastReqId ?dB) (Resolved ?resB)) (dash_run [] ?dB))"
    by (simp add: idB) (simp add: dash_run_def)
  have "ngrams (dash_run [Settle 1 (Resolved ?resA)]
          (dash_step (Settle (lastReqId ?dB) (Resolved ?resB)) (dash_run [] ?dB))) = res_data ?resB
      \<and> page (dash_run [Settle 1 (Resolved ?resA)]
          (dash_step (Settle (lastReqId ?dB) (Resolved ?resB)) (dash_run [] ?dB))) = 2"
    using stale_response_guard [OF refl refl h1 h2 refl, of ?resB 0 initialDashboard 0 Rejected]
    by blast
  then show ?thesis unfolding run by simp
qed

section \<open>Facts about the sort handlers\<close>

lemma handleSortChange_same_field:
  "field = sortBy d \<Longrightarrow>
     sortBy (handleSortChange field d) = sortBy d \<and>
     sortOrder (handleSortChange field d) = (if sortOrder d = Asc then Desc else Asc)"
  by (simp add: handleSortChange_def)

lemma handleSortChange_other_field:
  "field \<noteq> sortBy d \<Longrightarrow>
     sortBy (handleSortChange field d) = field \<and> sortOrder (handleSortChange field d) = Desc"
  by (simp add: handleSortChange_def)

lemma handleSortChange_burst_same_field:
  "field = burst_sortBy b \<Longrightarrow>
     burst_sortBy (handleSortChange_burst field b) = burst_sortBy b \<and>
     burst_sortOrder (handleSortChange_burst field b)
       = (if burst_sortOrder b = Asc then Desc else Asc)"
  by (simp add: handleSortChange_burst_def)

lemma handleSortChange_burst_other_field:
  "field \<noteq> burst_sortBy b \<Longrightarrow>
     burst_sortBy (handleSortChange_burst field b) = field \<and>
     burst_sortOrder (handleSortChange_burst field b) = (if field = Ngram then Asc else Desc)"
  by (simp add: handleSortChange_burst_def)

text \<open>
  Claim C6, evaluated on the code. On the frequency dashboard, whose initial sort is
  \<open>text\<close> ascending, a click on the lexical column \<open>subfield\<close> makes it the active
  field with direction descending: that handler sets descending for every new field. The
  handler of the burst page, one click away from normalised score to \<open>Ngram\<close>, sets
  ascending for its lexical field.
\<close>

theorem handleSortChange_lexical_field_descending:
  "sortOrder (handleSortChange ''subfield'' (initialDashboard :: string Dashboard)) = Desc
   \<and> sortBy (handleSortChange ''subfield'' (initialDashboard :: string Dashboard)) = ''subfield''
   \<and> burst_sortOrder (handleSortChange_burst Ngram
          \<lparr>burst_sortBy = NormalizedScore, burst_sortOrder = Desc, burst_page = 3\<rparr>) = Asc"
  by (simp add: handleSortChange_def handleSortChange_burst_def initialDashboard_def)

section \<open>Facts about the taxonomy filter panel\<close>










lemma find_SomeD: "find P xs = Some y \<Longrightarrow> P y \<and> y \<in> set xs"
  by (induction xs) (auto split: if_splits)





subsection \<open>The ambiguous state\<close>

text \<open>
  In the states the panel reaches from its initial state, the flag is set exactly when a
  pending name with its candidates is recorded, and then no field is chosen; and when
  the flag is not set, the filters name a field with every subfield.
\<close>

lemma rerender_keeps [simp]:
  "filters (rerender old new) = filters new"
  "isSubfieldAmbiguous (rerender old new) = isSubfieldAmbiguous new"
  "ambiguousSubfieldInfo (rerender old new) = ambiguousSubfieldInfo new"
  "showTimePicker (rerender old new) = showTimePicker new"
  "hasOnTimeChange (rerender old new) = hasOnTimeChange new"
  "start_date (rerender old new) = start_date new"
  "end_date (rerender old new) = end_date new"
  "autocompleteSent (rerender old new) = autocompleteSent new"
  by (simp_all add: rerender_def autocompleteEffect_def)

lemma rerender_same [simp]: "rerender p p = p"
  by (simp add: rerender_def)

lemma applyFilters_rerender [simp]: "applyFilters (rerender old new) = applyFilters new"
  by (simp add: applyFilters_def)

lemma panel_ok_rerender [simp]: "panel_ok (rerender old new) = panel_ok new"
  by (simp add: panel_ok_def pending_shape_def)













lemma step_HierarchyArrives [simp]:
  "panel_step (HierarchyArrives ds) p = hierarchyLoaded ds p"
  by (simp add: panel_step_def panel_handler_def rerender_def hierarchyLoaded_def Let_def)




lemma subfield_onChange_keeps [simp]:
  "searchText (subfield_onChange val p) = searchText p"
  "debounceTimer (subfield_onChange val p) = debounceTimer p"
  "autocompleteSent (subfield_onChange val p) = autocompleteSent p"
  "showTimePicker (subfield_onChange val p) = showTimePicker p"
  "allFields (subfield_onChange val p) = allFields p"
  "allSubfields (subfield_onChange val p) = allSubfields p"
  by (simp_all add: subfield_onChange_def Let_def split: option.splits)

lemma field_onChange_keeps [simp]:
  "searchText (field_onChange val p) = searchText p"
  "debounceTimer (field_onChange val p) = debounceTimer p"
  "autocompleteSent (field_onChange val p) = autocompleteSent p"
  "showTimePicker (field_onChange val p) = showTimePicker p"
  by (simp_all add: field_onChange_def Let_def split: option.splits bool.splits)







section \<open>Facts about the comparison session\<close>

subsection \<open>The cursor's text reads back as the cursor\<close>














text \<open>
  Beyond \<open>2^53\<close> the digits are rounded to a double: \<^verbatim>\<open>parseInt("9007199254740993", 10)\<close>
  is \<open>9007199254740992\<close>.
\<close>

lemma parseInt10_rounds:
  "parseInt10 (utf16 ''9007199254740993'') = Num 9007199254740992"
proof -
  have "bit_length 9007199254740993 = 54"
    by (simp add: bit_length.simps)
  then have "nearest_double 9007199254740993 = Some 9007199254740992"
    by (simp add: nearest_double_def)
  then show ?thesis
    by (simp add: parseInt10_def utf16_def is_space_def is_digit_def digit_val_def)
qed

subsection \<open>The cursor invariant when no two calls overlap\<close>






lemma cursor_ok_sent [simp]: "cursor_ok (s\<lparr>sent := x\<rparr>) = cursor_ok s"
  by (simp add: cursor_ok_def)





lemma user_step [simp]: "user (session_step e s) = user s"
  by (cases e)
     (auto simp: session_step_def loadEffect_def selectChoice_def onPrev_def onNext_def
        fetchNext_def Let_def
        split: sum.splits option.splits jsnum.splits parsed.splits if_splits
          submit_outcome.splits fetch_outcome.splits)

lemma user_run [simp]: "user (session_run es s) = user s"
  unfolding session_run_def by (induction es arbitrary: s) simp_all

subsection \<open>Runs without overlap are runs of the page\<close>

lemma page_run_Cons [simp]: "page_run (e # es) st = page_run es (page_step e st)"
  by (simp add: page_run_def)

lemma page_run_Nil [simp]: "page_run [] st = st"
  by (simp add: page_run_def)

lemma answer_out_of_range [simp]: "page_step (Answer (length cs) r t) (s, cs) = (s, cs)"
  by (simp add: page_step_def)

lemma answer_last:
  "page_step (Answer (length cs) r t) (s, cs @ [c]) =
     (case resume c r t s of None \<Rightarrow> (s, cs @ [c]) | Some res \<Rightarrow> (fst res, cs @ snd res))"
  by (simp add: page_step_def split: option.splits)

lemma fetch_answers_idle [simp]:
  "page_run (fetch_answers outcome (length cs) t) (s, cs) = (s, cs)"
  by (cases outcome) simp_all

lemma fetch_schedule:
  assumes "user s = Some usr"
  shows "page_run (fetch_answers outcome (length cs) t)
           (fst (fetchNext_start (pos s) s), cs @ snd (fetchNext_start (pos s) s))
         = (fetchNext t outcome s, cs)"
  using assms
  by (cases outcome)
     (simp_all add: fetchNext_start_def answer_last resume_def fetchNext_pair_def
        fetchNext_series_def fetchNext_def Let_def)

lemma session_step_schedule:
  "page_run (schedule e (length cs)) (s, cs) = (session_step e s, cs)"
proof (cases e)
  case (Load now)
  then show ?thesis by (simp add: page_step_def session_step_def split: sum.splits)
next
  case (Select c)
  then show ?thesis by (simp add: page_step_def session_step_def)
next
  case (Prev now)
  then show ?thesis by (simp add: page_step_def session_step_def)
next
  case (FetchEffect now outcome)
  show ?thesis
  proof (cases "fetchDue s")
    case True
    then obtain usr where "user s = Some usr" by (auto simp: fetchDue_def)
    from fetch_schedule [OF this] True FetchEffect show ?thesis
      by (simp add: page_step_def session_step_def)
  next
    case False
    with FetchEffect show ?thesis by (simp add: page_step_def session_step_def)
  qed
next
  case (Next now later sub outcome)
  show ?thesis
  proof (cases "buttons_shown s")
    case False
    with Next show ?thesis by (simp add: page_step_def session_step_def)
  next
    case True
    show ?thesis
    proof (cases "onNext_click now s")
      case (Pair s1 new)
      show ?thesis
      proof (cases new)
        case Nil
        with Pair have "onNext now later sub outcome s = s" "s1 = s"
          by (auto simp: onNext_click_def onNext_def split: option.splits prod.splits)
        with Pair Nil True Next show ?thesis
          by (simp add: page_step_def session_step_def)
      next
        case (Cons c rest)
        with Pair obtain usr cur ch where
          u: "user s = Some usr" and cur: "current s = Some cur" and ch: "choice cur = Some ch"
          and new: "new = [AwaitSubmit (pos s) (length (history s))]"
          and s1: "s1 = s\<lparr>sent := sent s @
                     [SubmitBinaryVote
                        \<lparr>v_user_id = user_id usr, v_pair_index = index cur,
                         v_left_id = left_id cur, v_right_id = right_id cur,
                         v_choice = ch, v_rt_ms = now - rtStartRef s\<rparr>]\<rparr>"
          by (auto simp: onNext_click_def split: option.splits)
        have u1: "user s1 = Some usr" and p1: "pos s1 = pos s" by (simp_all add: s1 u)
        have click: "page_step (ClickNext now) (s, cs) = (s1, cs @ [AwaitSubmit (pos s) (length (history s))])"
          using True Pair new by (simp add: page_step_def)
        show ?thesis
        proof (cases sub)
          case SubmitRejected
          with Next True u cur ch click s1 show ?thesis
            by (simp add: session_step_def answer_last resume_def onNext_resume_def
                  onNext_def Let_def)
        next
          case SubmitResolved
          show ?thesis
          proof (cases "pos s = Num (int (length (history s)) - 1)")
            case last: True
            from fetch_schedule [OF u1, of outcome cs later] p1
            have "page_run (fetch_answers outcome (length cs) later)
                    (fst (fetchNext_start (pos s) s1), cs @ snd (fetchNext_start (pos s) s1))
                  = (fetchNext later outcome s1, cs)" by simp
            with Next True u cur ch click s1 SubmitResolved last show ?thesis
              by (simp add: session_step_def answer_last resume_def onNext_resume_def
                    onNext_def Let_def)
          next
            case notlast: False
            with Next True u cur ch click s1 SubmitResolved show ?thesis
              by (simp add: session_step_def answer_last resume_def onNext_resume_def
                    onNext_def Let_def)
          qed
        qed
      qed
    qed
  qed
qed

text \<open>Every state of a run without overlap is a state of a run of the page.\<close>

lemma session_run_is_page_run:
  "\<exists>pes. page_run pes (s, cs) = (session_run es s, cs)"
proof (induction es arbitrary: s)
  case Nil
  have "page_run [] (s, cs) = (session_run [] s, cs)" by (simp add: session_run_def)
  then show ?case by blast
next
  case (Cons e es)
  from Cons.IH [of "session_step e s"] obtain pes where
    "page_run pes (session_step e s, cs) = (session_run es (session_step e s), cs)" by blast
  then have "page_run (schedule e (length cs) @ pes) (s, cs) = (session_run (e # es) s, cs)"
    using session_step_schedule [of e cs s]
    by (simp add: page_run_def session_run_def)
  then show ?case by blast
qed

subsection \<open>The example runs, evaluated\<close>

lemma example_normalised:
  "normalizePair_local exampleLeft exampleRight =
     ([\<lparr>date = ''2020-01-01'', count = 1 / 4\<rparr>, \<lparr>date = ''2021-01-01'', count = 1\<rparr>],
      [\<lparr>date = ''2020-01-01'', count = 1 / 2\<rparr>, \<lparr>date = ''2021-01-01'', count = 0\<rparr>])"
  by (simp add: normalizePair_local_def maxCount_def exampleLeft_def exampleRight_def
        rescale_def safeDiv_def)

lemma example_loaded:
  "loadEffect 0 (mount (Some exampleUser) emptyStorage) =
     Inr ((mount (Some exampleUser) emptyStorage)\<lparr>historyLoaded := True\<rparr>)"
  by (simp add: loadEffect_def mount_def emptyStorage_def
        loadHistoryFromLocalStorage_def loadPositionFromLocalStorage_def exampleUser_def)

lemmas session_unfold =
  fetchDue_def fetchNext_def selectChoice_def onNext_def onPrev_def buttons_shown_def
  current_def mount_def emptyStorage_def exampleUser_def examplePair_def exampleEntry_def
  example_normalised saveHistoryToLocalStorage_def savePositionToLocalStorage_def Let_def

lemma exampleSession_state:
  "user exampleSession = Some exampleUser"
  "history exampleSession = [exampleEntry 0 (Some Left_choice), exampleEntry 1 None]"
  "pos exampleSession = Num 1"
  "writable (storage exampleSession)"
  "rtStartRef exampleSession = 3"
  "historyLoaded exampleSession"
  "sent exampleSession =
     [GetNextBinaryPair 7, GetFrequency 10, GetFrequency 11,
      SubmitBinaryVote \<lparr>v_user_id = 7, v_pair_index = 0, v_left_id = 10, v_right_id = 11,
                        v_choice = Left_choice, v_rt_ms = 1\<rparr>,
      GetNextBinaryPair 7, GetFrequency 12, GetFrequency 13]"
  "loading exampleSession = False"
  "done_flag exampleSession = False"
  unfolding exampleSession_def session_run_def
  by (simp_all add: session_step_def example_loaded)
     (simp_all add: session_unfold)





subsection \<open>Resuming a session\<close>









subsection \<open>Selecting a choice\<close>

lemma current_in_range:
  "current s = Some cur \<longleftrightarrow>
     (\<exists>k. pos s = Num (int k) \<and> k < length (history s) \<and> cur = history s ! k)"
proof (cases "pos s")
  case (Num p)
  show ?thesis
  proof (cases "0 \<le> p \<and> p < int (length (history s))")
    case True
    then have "p = int (nat p)" "nat p < length (history s)" by (simp_all add: nat_less_iff)
    with Num True show ?thesis
      by (auto simp: current_def intro: exI [of _ "nat p"])
  next
    case False
    with Num show ?thesis by (auto simp: current_def)
  qed
qed (simp_all add: current_def)

lemma selectChoice_current:
  assumes "current s = Some cur"
  shows "\<exists>k. pos s = Num (int k) \<and> k < length (history s)
            \<and> history (selectChoice c s)
                = (history s)[k := cur\<lparr>choice := (if choice cur = Some c then None else Some c)\<rparr>]"
    and "pos (selectChoice c s) = pos s"
    and "current (selectChoice c s)
           = Some (cur\<lparr>choice := (if choice cur = Some c then None else Some c)\<rparr>)"
proof -
  from assms obtain k where k: "pos s = Num (int k)" "k < length (history s)"
    by (auto simp: current_in_range)
  have h: "history (selectChoice c s)
             = (history s)[k := cur\<lparr>choice := (if choice cur = Some c then None else Some c)\<rparr>]"
    using assms k by (simp add: selectChoice_def Let_def)
  show p: "pos (selectChoice c s) = pos s"
    using assms by (simp add: selectChoice_def Let_def)
  from k h show "\<exists>k. pos s = Num (int k) \<and> k < length (history s)
            \<and> history (selectChoice c s)
                = (history s)[k := cur\<lparr>choice := (if choice cur = Some c then None else Some c)\<rparr>]"
    by blast
  show "current (selectChoice c s)
           = Some (cur\<lparr>choice := (if choice cur = Some c then None else Some c)\<rparr>)"
    using k by (simp add: current_def p h)
qed

text \<open>
  Claim C8. When the page has a current pair \<open>cur\<close>, \<open>selectChoice c\<close> replaces it,
  at the cursor's index, by \<open>cur\<close> with only the choice changed: cleared if \<open>cur\<close>
  carried exactly \<open>c\<close>, set to \<open>c\<close> otherwise; the cursor and every other entry stay.
  Clicking the same value again undoes the first click's effect on the choice and a third
  click redoes it: from a pair that does not carry \<open>c\<close> the choice is \<open>c\<close>, then
  cleared, then \<open>c\<close> again.
\<close>

theorem choice_toggle_law:
  assumes "current s = Some cur"
  shows "(\<exists>k. pos s = Num (int k) \<and> k < length (history s)
            \<and> history (selectChoice c s)
                = (history s)[k := cur\<lparr>choice := (if choice cur = Some c then None else Some c)\<rparr>])
       \<and> pos (selectChoice c s) = pos s
       \<and> current (selectChoice c s)
           = Some (cur\<lparr>choice := (if choice cur = Some c then None else Some c)\<rparr>)
       \<and> current (selectChoice c (selectChoice c s))
           = Some (cur\<lparr>choice := (if choice cur = Some c then Some c else None)\<rparr>)
       \<and> current (selectChoice c (selectChoice c (selectChoice c s)))
           = Some (cur\<lparr>choice := (if choice cur = Some c then None else Some c)\<rparr>)"
proof -
  note one = selectChoice_current [OF assms, of c]
  note two = selectChoice_current [OF one(3), of c]
  note three = selectChoice_current [OF two(3), of c]
  from one two(3) three(3) show ?thesis by simp
qed

theorem choice_toggle_law_witness:
  "current exampleSession = Some (exampleEntry 1 None)
   \<and> current (selectChoice Right_choice exampleSession) = Some (exampleEntry 1 (Some Right_choice))
   \<and> current (selectChoice Right_choice (selectChoice Right_choice exampleSession)) = Some (exampleEntry 1 None)
   \<and> current (selectChoice Right_choice (selectChoice Right_choice (selectChoice Right_choice exampleSession)))
       = Some (exampleEntry 1 (Some Right_choice))"
proof -
  have cur: "current exampleSession = Some (exampleEntry 1 None)"
    by (simp add: current_def exampleSession_state)
  from choice_toggle_law [OF cur, of Right_choice] cur show ?thesis
    by (simp add: exampleEntry_def)
qed

subsection \<open>Previous, then next\<close>

lemma onPrev_moves_back:
  assumes "pos s = Num (int k)" and "0 < k"
  shows "onPrev t s =
           s\<lparr>pos := Num (int k - 1),
             storage := savePositionToLocalStorage (user s) (Num (int k - 1)) (storage s),
             rtStartRef := t\<rparr>"
  using assms by (simp add: onPrev_def)

lemma onNext_sends_vote:
  assumes "user s = Some usr" and "current s = Some cur" and "choice cur = Some c"
  shows "\<exists>rest. sent (onNext now later sub outcome s) =
                  sent s @
                  SubmitBinaryVote
                    \<lparr>v_user_id = user_id usr, v_pair_index = index cur,
                     v_left_id = left_id cur, v_right_id = right_id cur,
                     v_choice = c, v_rt_ms = now - rtStartRef s\<rparr> # rest
              \<and> (rest = [] \<longleftrightarrow>
                   sub = SubmitRejected \<or> pos s \<noteq> Num (int (length (history s)) - 1))"
  using assms
  by (cases sub; cases outcome) (simp_all add: onNext_def fetchNext_def Let_def)

text \<open>
  Claim C2, as amended. The cursor is at \<open>k > 0\<close> inside the history and the pair before
  it carries a choice. Previous and then next, with the vote accepted by the server, put
  the cursor at \<open>k\<close> again and leave the history and the completion flag as they were.
  The two handlers send exactly one request: the vote of pair \<open>k - 1\<close>; they send no
  next-pair and no frequency request. Afterwards the page's fetch effect is due exactly
  when pair \<open>k\<close> is the last entry and already carries a choice.
  In general (last conjunct), in any state \<open>s0\<close> with a user and a current pair that
  carries a choice, \<open>onNext\<close> sends the vote of the current pair first, whatever the
  cursor and whatever the server answers; further requests follow exactly when the vote
  was accepted and the pair is the last entry.
\<close>

theorem previous_then_next:
  assumes u: "user s = Some usr"
      and k: "pos s = Num (int k)" "0 < k" "k < length (history s)"
      and ch: "choice (history s ! (k - 1)) = Some ch"
      and s': "s' = onNext now later SubmitResolved outcome (onPrev t s)"
  shows "pos s' = Num (int k)
       \<and> history s' = history s
       \<and> done_flag s' = done_flag s
       \<and> sent s' = sent s @
            [SubmitBinaryVote
               \<lparr>v_user_id = user_id usr, v_pair_index = index (history s ! (k - 1)),
                v_left_id = left_id (history s ! (k - 1)),
                v_right_id = right_id (history s ! (k - 1)),
                v_choice = ch, v_rt_ms = now - t\<rparr>]
       \<and> (fetchDue s' \<longleftrightarrow>
            historyLoaded s \<and> k = length (history s) - 1 \<and> choice (history s ! k) \<noteq> None)
       \<and> (user s0 = Some usr0 \<and> current s0 = Some cur0 \<and> choice cur0 = Some c0 \<longrightarrow>
            (\<exists>rest. sent (onNext now0 later0 sub0 outcome0 s0) =
                      sent s0 @
                      SubmitBinaryVote
                        \<lparr>v_user_id = user_id usr0, v_pair_index = index cur0,
                         v_left_id = left_id cur0, v_right_id = right_id cur0,
                         v_choice = c0, v_rt_ms = now0 - rtStartRef s0\<rparr> # rest
                  \<and> (rest = [] \<longleftrightarrow>
                       sub0 = SubmitRejected
                       \<or> pos s0 \<noteq> Num (int (length (history s0)) - 1))))"
proof -
  note general = onNext_sends_vote [of s0 usr0 cur0 c0 now0 later0 sub0 outcome0]
  let ?s1 = "onPrev t s"
  note s1 = onPrev_moves_back [OF k(1,2), of t]
  have dec: "int k - 1 = int (k - 1)" using k(2) by simp
  have cur1: "current ?s1 = Some (history s ! (k - 1))"
    using k(3) unfolding s1 dec by (simp add: current_in_range)
  have notlast: "Num (int k - 1) \<noteq> Num (int (length (history s)) - 1)"
    using k(3) by simp
  have s2: "s' = ?s1\<lparr>sent := sent s @
                [SubmitBinaryVote
                   \<lparr>v_user_id = user_id usr, v_pair_index = index (history s ! (k - 1)),
                    v_left_id = left_id (history s ! (k - 1)),
                    v_right_id = right_id (history s ! (k - 1)),
                    v_choice = ch, v_rt_ms = now - t\<rparr>],
              pos := Num (int k),
              storage := savePositionToLocalStorage (Some usr) (Num (int k)) (storage ?s1),
              rtStartRef := later\<rparr>"
    unfolding s' using cur1 u ch notlast
    by (simp add: onNext_def Let_def) (simp add: s1 Let_def)
  have cur2: "current s' = Some (history s ! k)"
    using k(3) by (simp add: current_in_range s2 s1)
  have due: "fetchDue s' \<longleftrightarrow>
      historyLoaded s \<and> k = length (history s) - 1 \<and> choice (history s ! k) \<noteq> None"
  proof -
    have "Num (int k) = Num (int (length (history s)) - 1) \<longleftrightarrow> k = length (history s) - 1"
      using k(3) by auto
    then show ?thesis
      using k(3) u unfolding fetchDue_def cur2 by (auto simp: s2 s1)
  qed
  have round: "pos s' = Num (int k)" "history s' = history s" "done_flag s' = done_flag s"
    "sent s' = sent s @
            [SubmitBinaryVote
               \<lparr>v_user_id = user_id usr, v_pair_index = index (history s ! (k - 1)),
                v_left_id = left_id (history s ! (k - 1)),
                v_right_id = right_id (history s ! (k - 1)),
                v_choice = ch, v_rt_ms = now - t\<rparr>]"
    by (simp_all add: s2 s1)
  from round due general show ?thesis by blast
qed

theorem previous_then_next_witness:
  "pos (onNext 5 6 SubmitResolved NextFailed (onPrev 4 exampleSession)) = Num 1
   \<and> history (onNext 5 6 SubmitResolved NextFailed (onPrev 4 exampleSession))
       = [exampleEntry 0 (Some Left_choice), exampleEntry 1 None]
   \<and> \<not> fetchDue (onNext 5 6 SubmitResolved NextFailed (onPrev 4 exampleSession))
   \<and> current (selectChoice Right_choice exampleSession) = Some (exampleEntry 1 (Some Right_choice))
   \<and> pos (selectChoice Right_choice exampleSession)
       = Num (int (length (history (selectChoice Right_choice exampleSession))) - 1)
   \<and> (\<exists>rest. sent (onNext 5 6 SubmitResolved NextFailed (selectChoice Right_choice exampleSession))
              = sent exampleSession @
                SubmitBinaryVote \<lparr>v_user_id = 7, v_pair_index = 1, v_left_id = 12,
                                  v_right_id = 13, v_choice = Right_choice, v_rt_ms = 2\<rparr> # rest
              \<and> rest \<noteq> [])"
proof -
  have k: "pos exampleSession = Num (int 1)" "(0::nat) < 1" "1 < length (history exampleSession)"
    by (simp_all add: exampleSession_state)
  have ch: "choice (history exampleSession ! (1 - 1)) = Some Left_choice"
    by (simp add: exampleSession_state exampleEntry_def)
  let ?s0 = "selectChoice Right_choice exampleSession"
  have cur: "current exampleSession = Some (exampleEntry 1 None)"
    by (simp add: current_def exampleSession_state)
  have s0: "user ?s0 = Some exampleUser"
    "current ?s0 = Some (exampleEntry 1 (Some Right_choice))"
    "choice (exampleEntry 1 (Some Right_choice)) = Some Right_choice"
    "pos ?s0 = Num 1" "length (history ?s0) = 2" "sent ?s0 = sent exampleSession"
    "rtStartRef ?s0 = 3"
    using cur
    by (simp_all add: selectChoice_def current_def exampleSession_state exampleEntry_def Let_def)
  from previous_then_next
         [where now = 5 and later = 6 and outcome = NextFailed and t = 4
            and ?s0.0 = ?s0 and ?usr0.0 = exampleUser
            and ?cur0.0 = "exampleEntry 1 (Some Right_choice)" and ?c0.0 = Right_choice
            and ?now0.0 = 5 and ?later0.0 = 6 and ?sub0.0 = SubmitResolved
            and ?outcome0.0 = NextFailed,
          OF exampleSession_state(1) k ch refl]
  show ?thesis
    using s0 by (simp add: exampleSession_state exampleEntry_def exampleUser_def)
qed

text \<open>
  Claim C2 as stated ("does not re-submit a vote") fails. In the example session the vote
  of pair 0 was sent when the user first pressed Next; after previous and next the
  requests end with the same vote, sent a second time.
\<close>

theorem previous_then_next_resubmits_counterexample:
  "sent (onNext 5 6 SubmitResolved NextFailed (onPrev 4 exampleSession)) =
     [GetNextBinaryPair 7, GetFrequency 10, GetFrequency 11,
      SubmitBinaryVote \<lparr>v_user_id = 7, v_pair_index = 0, v_left_id = 10, v_right_id = 11,
                        v_choice = Left_choice, v_rt_ms = 1\<rparr>,
      GetNextBinaryPair 7, GetFrequency 12, GetFrequency 13,
      SubmitBinaryVote \<lparr>v_user_id = 7, v_pair_index = 0, v_left_id = 10, v_right_id = 11,
                        v_choice = Left_choice, v_rt_ms = 1\<rparr>]"
  by (simp add: onNext_def onPrev_def current_def exampleSession_state exampleEntry_def
        exampleUser_def Let_def)

subsection \<open>Loading from a damaged store\<close>

lemma load_fallback_empty_session:
  assumes "history_at st (user_id usr) \<in> {HistoryMissing, HistoryEmpty, HistoryNotJSON}"
  shows "loadHistoryFromLocalStorage (Some usr) st = PArray []"
    and "loadEffect now (mount (Some usr) st)
           = Inr ((mount (Some usr) st)\<lparr>pos := Num (- 1), historyLoaded := True\<rparr>)"
  using assms
  by (auto simp: loadHistoryFromLocalStorage_def loadEffect_def mount_def)

lemma load_position_fallback:
  assumes "position_at st (user_id usr) \<in> {None, Some []}"
  shows "loadPositionFromLocalStorage (Some usr) st = Num (- 1)"
  using assms by (auto simp: loadPositionFromLocalStorage_def)

text \<open>
  Claim C9, evaluated on the code. With the text \<^verbatim>\<open>null\<close> under the history key,
  \<^verbatim>\<open>JSON.parse\<close> succeeds, \<open>loadHistoryFromLocalStorage\<close> returns \<^verbatim>\<open>null\<close>, and the
  load effect throws on \<^verbatim>\<open>savedHistory.length\<close>. With the text \<^verbatim>\<open>abc\<close> under the
  position key, \<open>loadPositionFromLocalStorage\<close> returns NaN, not \<open>-1\<close>, and beside a
  stored history the cursor becomes NaN.
\<close>

theorem load_null_history_raises:
  "loadHistoryFromLocalStorage (Some exampleUser)
     \<lparr>history_at = (\<lambda>_. HistoryJSON PNull), position_at = (\<lambda>_. None),
      writable = True\<rparr> = PNull
   \<and> loadEffect 0 (mount (Some exampleUser)
                   \<lparr>history_at = (\<lambda>_. HistoryJSON PNull), position_at = (\<lambda>_. None),
                    writable = True\<rparr>) = Inl TypeError
   \<and> loadPositionFromLocalStorage (Some exampleUser)
        \<lparr>history_at = (\<lambda>_. HistoryMissing), position_at = (\<lambda>_. Some (utf16 ''abc'')),
         writable = True\<rparr> = NaN
   \<and> (case loadEffect 0 (mount (Some exampleUser)
                \<lparr>history_at = (\<lambda>_. HistoryJSON (PArray [exampleEntry 0 None])),
                 position_at = (\<lambda>_. Some (utf16 ''abc'')), writable = True\<rparr>) of
         Inl _ \<Rightarrow> Num 0
       | Inr s \<Rightarrow> pos s) = NaN"
  by (simp add: loadEffect_def mount_def loadHistoryFromLocalStorage_def
        loadPositionFromLocalStorage_def parseInt10_def is_space_def is_digit_def utf16_def)

end
